theory Spec2Isabelle
  imports Complex_Main
begin

section \<open>Python values\<close>

text \<open>
  A Python \<open>float\<close> is an IEEE double. A finite double is kept as the rational number it
  denotes, so that comparisons are exact, as they are in Python (also between an \<open>int\<close>
  and a \<open>float\<close>). The two zeros are one value.
\<close>

datatype pyfloat = Fin rat | PInf | NInf | NaN

datatype pynum = PInt int | PFloat pyfloat

text \<open>The values a decoded JSON body can hold.\<close>

datatype pyval =
    PNone
  | PBool bool
  | PNum pynum
  | PStr string
  | PList "pyval list"
  | PDict "(string \<times> pyval) list"

text \<open>
  A \<open>dict\<close> with string keys, in insertion order: \<open>f in data\<close> is
  \<open>f \<in> set (map fst data)\<close>, \<open>data[f]\<close> is \<open>map_of data f\<close> and \<open>data.items()\<close> is the
  list itself. A Python dict holds every key once (\<open>distinct (map fst data)\<close>).
\<close>

type_synonym pydict = "(string \<times> pyval) list"

datatype exn =
    ValueError
  | TypeError
  | OverflowError
  | KeyError
  | IndexError
  | ModelError string

text \<open>
  The text of a message. What \<open>str\<close> prints for a number, a type or an exception is not
  computed: an f-string is kept as its pieces.
\<close>

datatype frag =
    Lit string
  | Str pyfloat
  | TypeOf pyval
  | ExnStr exn

type_synonym message = "frag list"

subsection \<open>Comparison\<close>

fun fl_le :: "pyfloat \<Rightarrow> pyfloat \<Rightarrow> bool" where
  "fl_le NaN _ = False"
| "fl_le _ NaN = False"
| "fl_le NInf _ = True"
| "fl_le _ PInf = True"
| "fl_le (Fin a) (Fin b) = (a \<le> b)"
| "fl_le _ _ = False"

fun num_val :: "pynum \<Rightarrow> pyfloat" where
  "num_val (PInt n) = Fin (of_int n)"
| "num_val (PFloat x) = x"

text \<open>\<open>isinstance(value, (int, float))\<close>: \<open>bool\<close> is a subclass of \<open>int\<close>.\<close>

fun as_number :: "pyval \<Rightarrow> pynum option" where
  "as_number (PBool b) = Some (PInt (if b then 1 else 0))"
| "as_number (PNum n) = Some n"
| "as_number _ = None"

definition is_number :: "pyval \<Rightarrow> bool" where
  "is_number v = (as_number v \<noteq> None)"

text \<open>The chained comparison \<open>min_val <= value <= max_val\<close> on a number.\<close>

definition between :: "pyfloat \<Rightarrow> pynum \<Rightarrow> pyfloat \<Rightarrow> bool" where
  "between min_val value max_val = (fl_le min_val (num_val value) \<and> fl_le (num_val value) max_val)"

subsection \<open>Rounding to a double\<close>

function bit_length :: "int \<Rightarrow> int" where
  "bit_length n = (if n \<le> 0 then 0 else 1 + bit_length (n div 2))"
  by pat_completeness auto
termination
  by (relation "measure nat") auto

declare bit_length.simps [simp del]

definition pow2 :: "int \<Rightarrow> rat" where
  "pow2 k = (if 0 \<le> k then 2 ^ nat k else 1 / 2 ^ nat (- k))"

definition pow10 :: "int \<Rightarrow> rat" where
  "pow10 k = (if 0 \<le> k then 10 ^ nat k else 1 / 10 ^ nat (- k))"

text \<open>
  The exponent \<open>e\<close> with \<open>2 ^ e \<le> a < 2 ^ (e + 1)\<close>, for \<open>0 < a\<close>: from the bits of the
  integer part when \<open>1 \<le> a\<close>, and from those of the inverse otherwise.
\<close>

definition floor_log2 :: "rat \<Rightarrow> int" where
  "floor_log2 a =
     (if 1 \<le> a then bit_length \<lfloor>a\<rfloor> - 1
      else - bit_length (\<lceil>1 / a\<rceil> - 1))"

definition round_half_even :: "rat \<Rightarrow> int" where
  "round_half_even q =
     (let f = \<lfloor>q\<rfloor>; r = q - of_int f
      in if r < 1 / 2 then f
         else if 1 / 2 < r then f + 1
         else if even f then f else f + 1)"

text \<open>
  The double nearest to a rational, ties to the even significand: 53 bits, exponents from
  \<open>-1022\<close> (below it the spacing stays \<open>2 ^ -1074\<close>), infinite from \<open>2 ^ 1024\<close> on.
\<close>

definition double_of_rat :: "rat \<Rightarrow> pyfloat" where
  "double_of_rat q =
     (if q = 0 then Fin 0
      else let a = \<bar>q\<bar>;
               e = max (floor_log2 a) (- 1022);
               ulp = pow2 (e - 52);
               r = of_int (round_half_even (a / ulp)) * ulp
           in if pow2 1024 \<le> r then (if 0 < q then PInf else NInf)
              else Fin (if 0 < q then r else - r))"

subsection \<open>The builtin \<open>float\<close>\<close>

text \<open>
  \<open>float(s)\<close> on a string, each character read as one code point below 256: white space is
  stripped, an underscore may stand between two digits, then a sign and either a decimal
  number with an optional exponent, or \<open>inf\<close>, \<open>infinity\<close> or \<open>nan\<close> in any case. The
  whole string must be used up; \<open>None\<close> is ValueError.
\<close>

definition is_digit :: "char \<Rightarrow> bool" where
  "is_digit c = (48 \<le> (of_char c :: nat) \<and> (of_char c :: nat) \<le> 57)"

definition is_space :: "char \<Rightarrow> bool" where
  "is_space c =
     (let n = (of_char c :: nat)
      in (9 \<le> n \<and> n \<le> 13) \<or> n = 32 \<or> n = 133 \<or> n = 160)"

definition strip :: "string \<Rightarrow> string" where
  "strip s = rev (dropWhile is_space (rev (dropWhile is_space s)))"

definition ascii_lower :: "char \<Rightarrow> char" where
  "ascii_lower c =
     (let n = (of_char c :: nat) in if 65 \<le> n \<and> n \<le> 90 then char_of (n + 32) else c)"

definition digits_val :: "string \<Rightarrow> int" where
  "digits_val ds = foldl (\<lambda>a c. 10 * a + ((of_char c :: int) - 48)) 0 ds"

fun drop_underscores :: "char option \<Rightarrow> string \<Rightarrow> string option" where
  "drop_underscores prev [] = (if prev = Some CHR ''_'' then None else Some [])"
| "drop_underscores prev (c # cs) =
     (if c = CHR ''_''
      then (case prev of
              None \<Rightarrow> None
            | Some p \<Rightarrow> if is_digit p then drop_underscores (Some c) cs else None)
      else if prev = Some CHR ''_'' \<and> \<not> is_digit c then None
      else map_option (Cons c) (drop_underscores (Some c) cs))"

fun take_sign :: "string \<Rightarrow> bool \<times> string" where
  "take_sign [] = (False, [])"
| "take_sign (c # cs) =
     (if c = CHR ''-'' then (True, cs)
      else if c = CHR ''+'' then (False, cs)
      else (False, c # cs))"

definition parse_exponent :: "string \<Rightarrow> int option" where
  "parse_exponent s =
     (case s of
        [] \<Rightarrow> Some 0
      | c # r \<Rightarrow>
          if c = CHR ''e'' \<or> c = CHR ''E''
          then (let (neg, ds) = take_sign r
                in if ds \<noteq> [] \<and> list_all is_digit ds
                   then Some (if neg then - digits_val ds else digits_val ds)
                   else None)
          else None)"

definition parse_decimal :: "string \<Rightarrow> rat option" where
  "parse_decimal s =
     (let ip = takeWhile is_digit s;
          r1 = dropWhile is_digit s;
          (fp, r2) = (case r1 of
                        [] \<Rightarrow> ([], [])
                      | c # r \<Rightarrow>
                          if c = CHR ''.'' then (takeWhile is_digit r, dropWhile is_digit r)
                          else ([], r1))
      in if ip = [] \<and> fp = [] then None
         else (case parse_exponent r2 of
                 None \<Rightarrow> None
               | Some e \<Rightarrow>
                   Some (of_int (digits_val (ip @ fp)) * pow10 (e - int (length fp)))))"

definition float_of_str :: "string \<Rightarrow> pyfloat option" where
  "float_of_str s =
     (let t = strip s
      in if t = [] then None
         else (case drop_underscores None t of
                 None \<Rightarrow> None
               | Some u \<Rightarrow>
                   (let (neg, body) = take_sign u
                    in (case parse_decimal body of
                          Some q \<Rightarrow> Some (double_of_rat (if neg then - q else q))
                        | None \<Rightarrow>
                            (let w = map ascii_lower body
                             in if w = ''inf'' \<or> w = ''infinity''
                                then Some (if neg then NInf else PInf)
                                else if w = ''nan'' then Some NaN
                                else None)))))"

text \<open>
  \<open>float(value)\<close>: a float is itself, a bool is 0.0 or 1.0, an int is rounded to the nearest
  double (itself up to \<open>2 ^ 53\<close>) and raises OverflowError when that double would be
  infinite (from \<open>2 ^ 1024 - 2 ^ 970\<close> on, half way to \<open>2 ^ 1024\<close>), a string is parsed or raises ValueError, anything else raises TypeError.
\<close>

fun py_float :: "pyval \<Rightarrow> exn + pyfloat" where
  "py_float (PNum (PFloat x)) = Inr x"
| "py_float (PBool b) = Inr (Fin (if b then 1 else 0))"
| "py_float (PNum (PInt n)) =
     (if \<bar>n\<bar> \<le> 2 ^ 53 then Inr (Fin (of_int n))
      else if 2 ^ 1024 - 2 ^ 970 \<le> \<bar>n\<bar> then Inl OverflowError
      else Inr (double_of_rat (of_int n)))"
| "py_float (PStr s) = (case float_of_str s of None \<Rightarrow> Inl ValueError | Some x \<Rightarrow> Inr x)"
| "py_float _ = Inl TypeError"

text \<open>
  \<open>int(x)\<close> on a number truncates towards zero; a NaN raises ValueError and an infinity
  OverflowError.
\<close>

fun py_int :: "pynum \<Rightarrow> exn + int" where
  "py_int (PInt n) = Inr n"
| "py_int (PFloat (Fin q)) = Inr (if 0 \<le> q then \<lfloor>q\<rfloor> else - \<lfloor>- q\<rfloor>)"
| "py_int (PFloat NaN) = Inl ValueError"
| "py_int (PFloat _) = Inl OverflowError"

text \<open>\<open>xs[i]\<close> on a list: a negative index counts from the end, out of range raises.\<close>

definition py_index :: "'a list \<Rightarrow> int \<Rightarrow> exn + 'a" where
  "py_index xs i =
     (if 0 \<le> i \<and> i < int (length xs) then Inr (xs ! nat i)
      else if i < 0 \<and> - int (length xs) \<le> i then Inr (xs ! nat (int (length xs) + i))
      else Inl IndexError)"

text \<open>\<open>sep.join(xs)\<close>.\<close>

fun join :: "'a list \<Rightarrow> 'a list list \<Rightarrow> 'a list" where
  "join sep [] = []"
| "join sep [x] = x"
| "join sep (x # y # ys) = x @ sep @ join sep (y # ys)"

section \<open>The classifier, results and calls\<close>

text \<open>
  The loaded model is opaque: \<open>predict\<close> is \<open>model.predict(X)[0]\<close> on the one row of \<open>X\<close>
  and may raise; \<open>predict_proba\<close> is \<open>model.predict_proba(X)[0]\<close>, and \<open>None\<close> when
  \<open>hasattr(model, 'predict_proba')\<close> is false.
\<close>

record classifier =
  predict :: "pyval list \<Rightarrow> exn + pynum"
  predict_proba :: "(pyval list \<Rightarrow> exn + pyfloat list) option"

text \<open>The values of a result dict, and the calls a run of the pipeline makes, in order.\<close>

datatype rval =
    RNone
  | RBool bool
  | RStr string
  | RMsg message
  | RConf "(string \<times> pyfloat) list"
  | RInput pydict

type_synonym result = "(string \<times> rval) list"

datatype event =
    Validate pydict
  | Predict "pyval list"
  | PredictProba "pyval list"

definition failure :: "message \<Rightarrow> result" where
  "failure msg =
     [(''success'', RBool False), (''error'', RMsg msg),
      (''prediction'', RNone), (''confidence'', RNone)]"

definition success_result :: "string \<Rightarrow> rval \<Rightarrow> string \<Rightarrow> pydict \<Rightarrow> result" where
  "success_result label conf now data =
     [(''success'', RBool True), (''prediction'', RStr label), (''confidence'', conf),
      (''timestamp'', RStr now), (''input_data'', RInput data)]"

section \<open>app.py\<close>

text \<open>\<open>model = joblib.load(MODEL_PATH)\<close> at import, \<open>None\<close> when it raises.\<close>

definition load_app_model :: "exn + classifier \<Rightarrow> classifier option" where
  "load_app_model loaded = (case loaded of Inl e \<Rightarrow> None | Inr m \<Rightarrow> Some m)"

definition CLASS_LABELS :: "(pyfloat \<times> string) list" where
  "CLASS_LABELS =
     [(Fin 1, ''NORMAL''),
      (Fin 2, ''SUSPECT''),
      (Fin 3, ''PATHOLOGICAL'')]"

definition FEATURE_NAMES :: "string list" where
  "FEATURE_NAMES =
     [''prolongued_decelerations'',
      ''abnormal_short_term_variability'',
      ''percentage_abnormal_long_term_variability'',
      ''histogram_variance'',
      ''histogram_median'',
      ''mean_long_term_variability'',
      ''histogram_mode'',
      ''accelerations'']"

text \<open>
  A float literal is the double nearest to the decimal written: \<open>0.005\<close> is
  \<open>5764607523034235 / 2 ^ 60\<close>, \<open>50.7\<close> is \<open>3567695329807565 / 2 ^ 46\<close> and \<open>0.019\<close> is
  \<open>5476377146882523 / 2 ^ 58\<close>; the other bounds are whole numbers.
\<close>

definition FEATURE_RANGES :: "(string \<times> pyfloat \<times> pyfloat) list" where
  "FEATURE_RANGES =
     [(''prolongued_decelerations'', Fin 0, Fin (5764607523034235 / 2 ^ 60)),
      (''abnormal_short_term_variability'', Fin 12, Fin 87),
      (''percentage_abnormal_long_term_variability'', Fin 0, Fin 91),
      (''histogram_variance'', Fin 0, Fin 269),
      (''histogram_median'', Fin 77, Fin 186),
      (''mean_long_term_variability'', Fin 0, Fin (3567695329807565 / 2 ^ 46)),
      (''histogram_mode'', Fin 60, Fin 187),
      (''accelerations'', Fin 0, Fin (5476377146882523 / 2 ^ 58))]"

definition missing_message :: "string list \<Rightarrow> message" where
  "missing_message missing_features = [Lit ''Missing features: '', Lit (join '', '' missing_features)]"

definition invalid_numeric_message :: "string \<Rightarrow> message" where
  "invalid_numeric_message feature = [Lit feature, Lit '': invalid numeric value'']"

definition outside_range_message :: "string \<Rightarrow> pyfloat \<Rightarrow> pyfloat \<Rightarrow> pyfloat \<Rightarrow> message" where
  "outside_range_message feature v min_val max_val =
     [Lit feature, Lit '': value '', Str v, Lit '' outside range ['', Str min_val,
      Lit '', '', Str max_val, Lit '']'']"

text \<open>
  The loop of \<open>validate_input\<close> over \<open>data.items()\<close>, with the list \<open>errors\<close> so far. Only
  ValueError and TypeError are caught; any other exception of \<open>float\<close> leaves the function.
\<close>

fun check_ranges :: "pydict \<Rightarrow> message list \<Rightarrow> exn + message list" where
  "check_ranges [] errors = Inr errors"
| "check_ranges ((feature, v) # rest) errors =
     (case map_of FEATURE_RANGES feature of
        None \<Rightarrow> check_ranges rest errors
      | Some (min_val, max_val) \<Rightarrow>
          (case py_float v of
             Inl e \<Rightarrow>
               if e = ValueError \<or> e = TypeError
               then check_ranges rest (errors @ [invalid_numeric_message feature])
               else Inl e
           | Inr x \<Rightarrow>
               if \<not> (fl_le min_val x \<and> fl_le x max_val)
               then check_ranges rest
                      (errors @ [outside_range_message feature x min_val max_val])
               else check_ranges rest errors))"

definition validate_input :: "pydict \<Rightarrow> exn + message list" where
  "validate_input data =
     (let missing_features = filter (\<lambda>f. f \<notin> set (map fst data)) FEATURE_NAMES;
          errors = (if missing_features \<noteq> [] then [missing_message missing_features] else [])
      in check_ranges data errors)"

text \<open>\<open>[float(data[feature]) for feature in FEATURE_NAMES]\<close>.\<close>

fun float_features :: "pydict \<Rightarrow> string list \<Rightarrow> exn + pyfloat list" where
  "float_features data [] = Inr []"
| "float_features data (feature # fs) =
     (case map_of data feature of
        None \<Rightarrow> Inl KeyError
      | Some v \<Rightarrow>
          (case py_float v of
             Inl e \<Rightarrow> Inl e
           | Inr x \<Rightarrow>
               (case float_features data fs of
                  Inl e \<Rightarrow> Inl e
                | Inr xs \<Rightarrow> Inr (x # xs))))"

text \<open>The \<open>try\<close> block of \<open>make_prediction\<close>: the exception raised or the result, and the calls made.\<close>

definition predict_block ::
  "classifier \<Rightarrow> string \<Rightarrow> pydict \<Rightarrow> (exn + result) \<times> event list" where
  "predict_block m now data =
     (case float_features data FEATURE_NAMES of
        Inl e \<Rightarrow> (Inl e, [])
      | Inr features \<Rightarrow>
          (let X = map (\<lambda>x. PNum (PFloat x)) features
           in (case predict m X of
                 Inl e \<Rightarrow> (Inl e, [Predict X])
               | Inr prediction \<Rightarrow>
                   (case map_of CLASS_LABELS (num_val prediction) of
                      None \<Rightarrow> (Inl KeyError, [Predict X])
                    | Some label \<Rightarrow>
                        (case predict_proba m of
                           None \<Rightarrow> (Inr (success_result label RNone now data), [Predict X])
                         | Some proba \<Rightarrow>
                             (case proba X of
                                Inl e \<Rightarrow> (Inl e, [Predict X, PredictProba X])
                              | Inr probabilities \<Rightarrow>
                                  if length probabilities < 3
                                  then (Inl IndexError, [Predict X, PredictProba X])
                                  else (Inr (success_result label
                                               (RConf [(''NORMAL'', probabilities ! 0),
                                                       (''SUSPECT'', probabilities ! 1),
                                                       (''PATHOLOGICAL'', probabilities ! 2)])
                                               now data),
                                        [Predict X, PredictProba X])))))))"

text \<open>
  \<open>make_prediction(data)\<close> with the global \<open>model\<close> and the clock's text \<open>now\<close>. The call
  of \<open>validate_input\<close> stands outside the \<open>try\<close>: what it raises leaves the function.
\<close>

definition make_prediction ::
  "classifier option \<Rightarrow> string \<Rightarrow> pydict \<Rightarrow> (exn + result) \<times> event list" where
  "make_prediction mdl now data =
     (case mdl of
        None \<Rightarrow> (Inr (failure [Lit ''Model not loaded'']), [])
      | Some m \<Rightarrow>
          (case validate_input data of
             Inl e \<Rightarrow> (Inl e, [Validate data])
           | Inr errors \<Rightarrow>
               if errors \<noteq> [] then (Inr (failure (join [Lit ''; ''] errors)), [Validate data])
               else (case predict_block m now data of
                       (Inl e, calls) \<Rightarrow>
                         (Inr (failure [Lit ''Prediction error: '', ExnStr e]), Validate data # calls)
                     | (Inr r, calls) \<Rightarrow> (Inr r, Validate data # calls))))"

section \<open>agent.py\<close>

record FetalHealthAgent =
  model :: "classifier option"
  labels :: "string list"
  feature_names :: "string list"

text \<open>
  \<open>load_model\<close>: the model is set when the file exists and \<open>joblib.load\<close> returns; the
  method tells whether it did.
\<close>

definition load_model ::
  "bool \<Rightarrow> exn + classifier \<Rightarrow> FetalHealthAgent \<Rightarrow> bool \<times> FetalHealthAgent" where
  "load_model path_exists loaded self =
     (if path_exists
      then (case loaded of
              Inl e \<Rightarrow> (False, self)
            | Inr m \<Rightarrow> (True, self\<lparr>model := Some m\<rparr>))
      else (False, self))"

definition init :: "bool \<Rightarrow> exn + classifier \<Rightarrow> FetalHealthAgent" where
  "init path_exists loaded =
     snd (load_model path_exists loaded
            \<lparr>model = None,
             labels = [''NORMAL'', ''SUSPECT'', ''PATHOLOGICAL''],
             feature_names =
               [''prolongued_decelerations'',
                ''abnormal_short_term_variability'',
                ''percentage_abnormal_long_term_variability'',
                ''histogram_variance'',
                ''histogram_median'',
                ''mean_long_term_variability'',
                ''histogram_mode'',
                ''accelerations'']\<rparr>)"

definition ranges :: "(string \<times> pyfloat \<times> pyfloat) list" where
  "ranges =
     [(''prolongued_decelerations'', Fin 0, Fin (5764607523034235 / 2 ^ 60)),
      (''abnormal_short_term_variability'', Fin 12, Fin 87),
      (''percentage_abnormal_long_term_variability'', Fin 0, Fin 91),
      (''histogram_variance'', Fin 0, Fin 269),
      (''histogram_median'', Fin 77, Fin 186),
      (''mean_long_term_variability'', Fin 0, Fin (3567695329807565 / 2 ^ 46)),
      (''histogram_mode'', Fin 60, Fin 187),
      (''accelerations'', Fin 0, Fin (5476377146882523 / 2 ^ 58))]"

definition invalid_type_message :: "string \<Rightarrow> pyval \<Rightarrow> message" where
  "invalid_type_message feature v =
     [Lit ''Invalid data type for '', Lit feature, Lit '': expected number, got '', TypeOf v]"

definition between_message :: "string \<Rightarrow> pyfloat \<Rightarrow> pyfloat \<Rightarrow> message" where
  "between_message feature min_val max_val =
     [Lit ''Value for '', Lit feature, Lit '' should be between '', Str min_val,
      Lit '' and '', Str max_val]"

text \<open>
  The loop of the agent's \<open>validate_input\<close> over \<open>data.items()\<close>: it returns at the first
  item that fails a check. No operation of it raises on these values, so the handler
  around the body (\<open>Validation error\<close>) is never entered.
\<close>

fun check_items :: "pydict \<Rightarrow> bool \<times> message" where
  "check_items [] = (True, [Lit ''Input validation successful''])"
| "check_items ((feature, v) # rest) =
     (case as_number v of
        None \<Rightarrow> (False, invalid_type_message feature v)
      | Some n \<Rightarrow>
          (case map_of ranges feature of
             None \<Rightarrow> check_items rest
           | Some (min_val, max_val) \<Rightarrow>
               if \<not> between min_val n max_val
               then (False, between_message feature min_val max_val)
               else check_items rest))"

definition FetalHealthAgent_validate_input ::
  "FetalHealthAgent \<Rightarrow> pydict \<Rightarrow> bool \<times> message" where
  "FetalHealthAgent_validate_input self data =
     (let missing_features = filter (\<lambda>f. f \<notin> set (map fst data)) (feature_names self)
      in if missing_features \<noteq> [] then (False, missing_message missing_features)
         else check_items data)"

text \<open>\<open>[data[feature] for feature in self.feature_names]\<close>.\<close>

fun lookup_features :: "pydict \<Rightarrow> string list \<Rightarrow> exn + pyval list" where
  "lookup_features data [] = Inr []"
| "lookup_features data (feature # fs) =
     (case map_of data feature of
        None \<Rightarrow> Inl KeyError
      | Some v \<Rightarrow>
          (case lookup_features data fs of
             Inl e \<Rightarrow> Inl e
           | Inr vs \<Rightarrow> Inr (v # vs)))"

text \<open>
  \<open>X = np.array([features])\<close> on the row of the agent: numpy gives the row one numeric
  type, float64 when a float is among the values, else int64 when an int is, else bool. Only
  a row of numbers within the schema bounds reaches it (the request has passed validation),
  where each conversion is exact; any other row is left as it is. In app.py the row is a
  list of floats, which numpy keeps.
\<close>

fun is_float :: "pyval \<Rightarrow> bool" where
  "is_float (PNum (PFloat x)) = True"
| "is_float _ = False"

fun is_int :: "pyval \<Rightarrow> bool" where
  "is_int (PNum (PInt n)) = True"
| "is_int _ = False"

definition to_float64 :: "pyval \<Rightarrow> pyval" where
  "to_float64 v = (case py_float v of Inl e \<Rightarrow> v | Inr x \<Rightarrow> PNum (PFloat x))"

fun to_int64 :: "pyval \<Rightarrow> pyval" where
  "to_int64 (PBool b) = PNum (PInt (if b then 1 else 0))"
| "to_int64 v = v"

definition np_array_row :: "pyval list \<Rightarrow> pyval list" where
  "np_array_row features =
     (if \<not> list_all is_number features then features
      else if list_ex is_float features then map to_float64 features
      else if list_ex is_int features then map to_int64 features
      else features)"

text \<open>The \<open>try\<close> block of the agent's \<open>make_prediction\<close>.\<close>

definition agent_predict_block ::
  "FetalHealthAgent \<Rightarrow> classifier \<Rightarrow> string \<Rightarrow> pydict \<Rightarrow> (exn + result) \<times> event list" where
  "agent_predict_block self m now data =
     (case lookup_features data (feature_names self) of
        Inl e \<Rightarrow> (Inl e, [])
      | Inr features \<Rightarrow>
          (let X = np_array_row features
           in (case predict m X of
                 Inl e \<Rightarrow> (Inl e, [Predict X])
               | Inr prediction \<Rightarrow>
                   (case py_int prediction of
                      Inl e \<Rightarrow> (Inl e, [Predict X])
                    | Inr code \<Rightarrow>
                        (let class_index = code - 1
                         in (case py_index (labels self) class_index of
                               Inl e \<Rightarrow> (Inl e, [Predict X])
                             | Inr label \<Rightarrow>
                                 (case predict_proba m of
                                    None \<Rightarrow>
                                      (Inr (success_result label RNone now data), [Predict X])
                                  | Some proba \<Rightarrow>
                                      (case proba X of
                                         Inl e \<Rightarrow> (Inl e, [Predict X, PredictProba X])
                                       | Inr probabilities \<Rightarrow>
                                           (Inr (success_result label
                                                   (RConf (zip (labels self) probabilities))
                                                   now data),
                                            [Predict X, PredictProba X])))))))))"

definition FetalHealthAgent_make_prediction ::
  "FetalHealthAgent \<Rightarrow> string \<Rightarrow> pydict \<Rightarrow> result \<times> event list" where
  "FetalHealthAgent_make_prediction self now data =
     (case model self of
        None \<Rightarrow> (failure [Lit ''Model not loaded''], [])
      | Some m \<Rightarrow>
          (let (is_valid, msg) = FetalHealthAgent_validate_input self data
           in if \<not> is_valid then (failure msg, [Validate data])
              else (case agent_predict_block self m now data of
                      (Inl e, calls) \<Rightarrow>
                        (failure [Lit ''Prediction error: '', ExnStr e], Validate data # calls)
                    | (Inr r, calls) \<Rightarrow> (r, Validate data # calls))))"

text \<open>
  \<open>get_sample_data\<close>, also the body that \<open>/api/sample\<close> of app.py returns. The double
  \<open>0.002\<close> is \<open>1152921504606847 / 2 ^ 59\<close> and \<open>0.01\<close> is \<open>5764607523034235 / 2 ^ 59\<close>.
\<close>

definition get_sample_data :: pydict where
  "get_sample_data =
     [(''prolongued_decelerations'', PNum (PFloat (Fin (1152921504606847 / 2 ^ 59)))),
      (''abnormal_short_term_variability'', PNum (PFloat (Fin 50))),
      (''percentage_abnormal_long_term_variability'', PNum (PFloat (Fin 45))),
      (''histogram_variance'', PNum (PFloat (Fin 134))),
      (''histogram_median'', PNum (PFloat (Fin 130))),
      (''mean_long_term_variability'', PNum (PFloat (Fin 25))),
      (''histogram_mode'', PNum (PFloat (Fin 120))),
      (''accelerations'', PNum (PFloat (Fin (5764607523034235 / 2 ^ 59))))]"

text \<open>
  The request of the tests for a value out of range: the sample with
  \<open>invalid_data['prolongued_decelerations'] = 999\<close>, which keeps the key's place.
\<close>

definition invalid_range_data :: pydict where
  "invalid_range_data = (''prolongued_decelerations'', PNum (PInt 999)) # tl get_sample_data"

text \<open>
  Further requests a JSON body can hold: the sample with the string \<open>"130.0"\<close> or with
  \<open>null\<close> for \<open>histogram_median\<close>, with the string \<open>"120"\<close> for \<open>histogram_mode\<close>, and with
  one more key \<open>note\<close> whose value is a string.
\<close>

definition string_median_data :: pydict where
  "string_median_data =
     take 4 get_sample_data @ (''histogram_median'', PStr ''130.0'') # drop 5 get_sample_data"

definition null_median_data :: pydict where
  "null_median_data =
     take 4 get_sample_data @ (''histogram_median'', PNone) # drop 5 get_sample_data"

definition string_mode_data :: pydict where
  "string_mode_data =
     take 6 get_sample_data @ (''histogram_mode'', PStr ''120'') # drop 7 get_sample_data"

definition extra_key_data :: pydict where
  "extra_key_data = get_sample_data @ [(''note'', PStr ''abc'')]"

text \<open>The sample with \<open>histogram_median\<close> at its upper bound, 186.0.\<close>

definition bound_median_data :: pydict where
  "bound_median_data =
     take 4 get_sample_data @ (''histogram_median'', PNum (PFloat (Fin 186)))
       # drop 5 get_sample_data"

text \<open>A classifier that answers every row with one class code and has no \<open>predict_proba\<close>.\<close>

definition constant_classifier :: "pynum \<Rightarrow> classifier" where
  "constant_classifier code = \<lparr>predict = (\<lambda>X. Inr code), predict_proba = None\<rparr>"

section \<open>Evaluating the pipelines on the sample request\<close>

lemma init_simps [simp]:
  "model (init ex ld) = (if ex then (case ld of Inl e \<Rightarrow> None | Inr m \<Rightarrow> Some m) else None)"
  "labels (init ex ld) = [''NORMAL'', ''SUSPECT'', ''PATHOLOGICAL'']"
  "feature_names (init ex ld) = FEATURE_NAMES"
  by (auto simp: init_def load_model_def FEATURE_NAMES_def split: sum.splits)

lemma ranges_eq: "ranges = FEATURE_RANGES"
  by (simp add: ranges_def FEATURE_RANGES_def)

lemma sample_valid_app: "validate_input get_sample_data = Inr []"
  by (simp add: validate_input_def get_sample_data_def FEATURE_RANGES_def FEATURE_NAMES_def)

lemma sample_valid_agent:
  "FetalHealthAgent_validate_input (init ex ld) get_sample_data =
     (True, [Lit ''Input validation successful''])"
  by (simp add: FetalHealthAgent_validate_input_def get_sample_data_def ranges_def
      FEATURE_NAMES_def between_def)

lemma sample_features:
  "lookup_features get_sample_data FEATURE_NAMES = Inr (map snd get_sample_data)"
  by (simp add: get_sample_data_def FEATURE_NAMES_def)

lemma sample_row: "np_array_row (map snd get_sample_data) = map snd get_sample_data"
  by (simp add: np_array_row_def get_sample_data_def is_number_def to_float64_def)

lemma sample_float_features:
  "float_features get_sample_data FEATURE_NAMES =
     Inr [Fin (1152921504606847 / 2 ^ 59), Fin 50, Fin 45, Fin 134, Fin 130, Fin 25, Fin 120,
          Fin (5764607523034235 / 2 ^ 59)]"
  by (simp add: get_sample_data_def FEATURE_NAMES_def)

section \<open>Class codes and labels\<close>

text \<open>
  C1. A class code outside 1, 2, 3 must surface as an error and never give a label. The
  agent subtracts one and indexes \<open>labels\<close>, and a Python list takes a negative index from
  its end: on the sample request, a classifier that returns the integer code 0 gets the
  successful result PATHOLOGICAL.
\<close>

theorem agent_code_zero_gives_label:
  "FetalHealthAgent_make_prediction (init True (Inr (constant_classifier (PInt 0)))) now
     get_sample_data =
   (success_result ''PATHOLOGICAL'' RNone now get_sample_data,
    [Validate get_sample_data, Predict (map snd get_sample_data)])"
  by (simp add: FetalHealthAgent_make_prediction_def sample_valid_agent agent_predict_block_def
      sample_features sample_row constant_classifier_def py_index_def)

section \<open>The prediction pipelines\<close>

lemma failure_fields:
  "map_of (failure msg) ''success'' = Some (RBool False)"
  "map_of (failure msg) ''prediction'' = Some RNone"
  "map_of (failure msg) ''confidence'' = Some RNone"
  by (simp_all add: failure_def)

lemma success_fields:
  "map_of (success_result label conf now data) ''success'' = Some (RBool True)"
  "map_of (success_result label conf now data) ''input_data'' = Some (RInput data)"
  by (simp_all add: success_result_def)

lemma predict_block_result:
  "predict_block m now data = (Inr r, calls) \<Longrightarrow> \<exists>label conf. r = success_result label conf now data"
  unfolding predict_block_def
  by (auto simp: Let_def split: sum.splits option.splits if_splits)

lemma agent_predict_block_result:
  "agent_predict_block self m now data = (Inr r, calls) \<Longrightarrow>
     \<exists>label conf. r = success_result label conf now data"
  unfolding agent_predict_block_def
  by (auto simp: Let_def split: sum.splits option.splits if_splits)

lemma make_prediction_cases:
  "make_prediction mdl now data = (Inr r, calls) \<Longrightarrow>
     (\<exists>msg. r = failure msg) \<or> (\<exists>label conf. r = success_result label conf now data)"
  unfolding make_prediction_def
  by (auto split: option.splits sum.splits if_splits prod.splits dest: predict_block_result)

lemma agent_make_prediction_cases:
  "FetalHealthAgent_make_prediction self now data = (r, calls) \<Longrightarrow>
     (\<exists>msg. r = failure msg) \<or> (\<exists>label conf. r = success_result label conf now data)"
  unfolding FetalHealthAgent_make_prediction_def
  by (auto split: option.splits sum.splits if_splits prod.splits dest: agent_predict_block_result)




lemma sample_app_prediction:
  "make_prediction (Some (constant_classifier (PInt 1))) now get_sample_data =
     (Inr (success_result ''NORMAL'' RNone now get_sample_data),
      [Validate get_sample_data,
       Predict (map (\<lambda>x. PNum (PFloat x))
         [Fin (1152921504606847 / 2 ^ 59), Fin 50, Fin 45, Fin 134, Fin 130, Fin 25, Fin 120,
          Fin (5764607523034235 / 2 ^ 59)])])"
  by (simp add: make_prediction_def sample_valid_app predict_block_def sample_float_features
      constant_classifier_def CLASS_LABELS_def)

lemma sample_agent_prediction:
  "FetalHealthAgent_make_prediction (init True (Inr (constant_classifier (PInt 1)))) now
     get_sample_data =
   (success_result ''NORMAL'' RNone now get_sample_data,
    [Validate get_sample_data, Predict (map snd get_sample_data)])"
  by (simp add: FetalHealthAgent_make_prediction_def sample_valid_agent agent_predict_block_def
      sample_features sample_row constant_classifier_def py_index_def)

text \<open>
  C9. When the model failed to load at start (the load raised, or for the agent the file
  was not there), the model stays absent: no call changes it, and every call of a sequence
  of calls, whatever the request, gets the error \<open>Model not loaded\<close> and makes no call of
  the validator or the classifier.
\<close>

theorem unavailable_model_is_permanent:
  "load_app_model (Inl e) = None
   \<and> model (init False ld) = None
   \<and> model (init True (Inl e)) = None
   \<and> map (\<lambda>(now, data). make_prediction (load_app_model (Inl e)) now data) calls =
       map (\<lambda>c. (Inr (failure [Lit ''Model not loaded'']), [])) calls
   \<and> map (\<lambda>(now, data). FetalHealthAgent_make_prediction (init False ld) now data) calls =
       map (\<lambda>c. (failure [Lit ''Model not loaded''], [])) calls
   \<and> map (\<lambda>(now, data). FetalHealthAgent_make_prediction (init True (Inl e)) now data) calls =
       map (\<lambda>c. (failure [Lit ''Model not loaded''], [])) calls"
  by (simp add: load_app_model_def make_prediction_def FetalHealthAgent_make_prediction_def
      case_prod_beta)

text \<open>
  C10. The model is checked before the input: without a model every request, valid or
  not, gets \<open>Model not loaded\<close> and the validator is not called. Every result that is not a
  success has \<open>success\<close> false and both \<open>prediction\<close> and \<open>confidence\<close> set to None.
\<close>

theorem model_check_precedes_validation:
  "make_prediction None now data = (Inr (failure [Lit ''Model not loaded'']), [])
   \<and> (model self = None \<longrightarrow>
        FetalHealthAgent_make_prediction self now data = (failure [Lit ''Model not loaded''], []))
   \<and> (make_prediction mdl now data = (Inr r, calls) \<longrightarrow>
        map_of r ''success'' \<noteq> Some (RBool True) \<longrightarrow>
        map_of r ''success'' = Some (RBool False) \<and> map_of r ''prediction'' = Some RNone
        \<and> map_of r ''confidence'' = Some RNone)
   \<and> (FetalHealthAgent_make_prediction self now data = (r', calls') \<longrightarrow>
        map_of r' ''success'' \<noteq> Some (RBool True) \<longrightarrow>
        map_of r' ''success'' = Some (RBool False) \<and> map_of r' ''prediction'' = Some RNone
        \<and> map_of r' ''confidence'' = Some RNone)"
  using make_prediction_cases [of mdl now data r calls]
    agent_make_prediction_cases [of self now data r' calls']
  by (auto simp: failure_fields success_fields make_prediction_def
      FetalHealthAgent_make_prediction_def)

theorem model_check_precedes_validation_witness:
  "FetalHealthAgent_make_prediction (init False (Inl KeyError)) ''t'' [] =
     (failure [Lit ''Model not loaded''], [])
   \<and> map_of (failure [Lit ''Model not loaded'']) ''success'' = Some (RBool False)
   \<and> map_of (failure [Lit ''Model not loaded'']) ''prediction'' = Some RNone
   \<and> map_of (failure [Lit ''Model not loaded'']) ''confidence'' = Some RNone"
  using model_check_precedes_validation
    [where now = "''t''" and data = "[]" and self = "init False (Inl KeyError)"
       and mdl = None and r = "failure [Lit ''Model not loaded'']" and calls = "[]"
       and r' = "failure [Lit ''Model not loaded'']" and calls' = "[]"]
  by (simp add: failure_fields)

section \<open>Rounding of large integers\<close>

text \<open>
  An int beyond \<open>2 ^ 53\<close> in magnitude converts to a double of magnitude at least
  \<open>2 ^ 53\<close>, so a converted value inside bounds of smaller size is the int itself.
\<close>

lemma bit_length_bounds:
  "0 < m \<Longrightarrow> 1 \<le> bit_length m \<and> 2 ^ nat (bit_length m - 1) \<le> m \<and> m < 2 ^ nat (bit_length m)"
proof (induction m rule: bit_length.induct)
  case (1 n)
  have unfold: "bit_length n = 1 + bit_length (n div 2)"
    using "1.prems" by (subst bit_length.simps) simp
  show ?case
  proof (cases "n div 2 = 0")
    case True
    with "1.prems" have "n = 1" by presburger
    moreover have "bit_length 0 = 0" by (subst bit_length.simps) simp
    ultimately show ?thesis using unfold by simp
  next
    case False
    with "1.prems" have pos: "0 < n div 2" by presburger
    from "1.prems" have "\<not> n \<le> 0" by simp
    from "1.IH" [OF this pos]
    have ih: "1 \<le> bit_length (n div 2)"
      "2 ^ nat (bit_length (n div 2) - 1) \<le> n div 2"
      "n div 2 < 2 ^ nat (bit_length (n div 2))"
      by auto
    define b where "b = bit_length (n div 2)"
    have suc: "nat b = Suc (nat (b - 1))" using ih(1) by (simp add: b_def)
    have low: "(2::int) ^ nat b \<le> n"
    proof -
      have "(2::int) ^ nat b = 2 * 2 ^ nat (b - 1)" by (subst suc) simp
      also have "\<dots> \<le> 2 * (n div 2)" using ih(2) by (simp add: b_def)
      also have "\<dots> \<le> n" by presburger
      finally show ?thesis .
    qed
    have high: "n < 2 ^ nat (1 + b)"
    proof -
      have "n < 2 * (n div 2 + 1)" by presburger
      also have "\<dots> \<le> 2 * 2 ^ nat b" using ih(3) by (simp add: b_def)
      also have "\<dots> = 2 ^ nat (1 + b)"
        using ih(1) by (simp add: b_def nat_add_distrib)
      finally show ?thesis .
    qed
    show ?thesis
      using ih(1) low high unfolding unfold b_def [symmetric] by simp
  qed
qed

lemma floor_le_round_half_even: "\<lfloor>y\<rfloor> \<le> round_half_even y"
  by (simp add: round_half_even_def Let_def)

lemma big_int_double:
  assumes big: "2 ^ 53 < \<bar>n\<bar>"
  shows "(case double_of_rat (of_int n) of Fin q \<Rightarrow> 2 ^ 53 \<le> \<bar>q\<bar> | NaN \<Rightarrow> False | _ \<Rightarrow> True)"
proof -
  define m where "m = \<bar>n\<bar>"
  define a :: rat where "a = \<bar>of_int n\<bar>"
  have am: "a = of_int m" by (simp add: a_def m_def)
  have mpos: "0 < m" using big by (simp add: m_def)
  have a1: "1 \<le> a" using mpos by (simp add: am)
  define bl where "bl = bit_length m"
  from bit_length_bounds [OF mpos]
  have bl: "1 \<le> bl" "2 ^ nat (bl - 1) \<le> m" "m < 2 ^ nat bl"
    by (simp_all add: bl_def)
  have bl54: "54 \<le> bl"
  proof (rule ccontr)
    assume "\<not> 54 \<le> bl"
    then have "nat bl \<le> 53" by simp
    then have "(2::int) ^ nat bl \<le> 2 ^ 53"
      by (intro power_increasing) simp_all
    with bl(3) big show False by (simp add: m_def)
  qed
  define e where "e = bl - 1"
  have e53: "53 \<le> e" using bl54 by (simp add: e_def)
  have fl: "floor_log2 a = e"
    using a1 by (simp add: floor_log2_def am bl_def e_def)
  have emax: "max (floor_log2 a) (- 1022) = e" using fl e53 by simp
  have pow2e: "pow2 e = 2 ^ nat e" using e53 by (simp add: pow2_def)
  have pow2e_le: "pow2 e \<le> a"
  proof -
    have "(of_int ((2::int) ^ nat e) :: rat) \<le> of_int m"
      using bl(2) unfolding e_def by (simp only: of_int_le_iff)
    then show ?thesis by (simp add: pow2e am)
  qed
  define ulp where "ulp = pow2 (e - 52)"
  have ulp: "ulp = 2 ^ nat (e - 52)" using e53 by (simp add: ulp_def pow2_def)
  have ulp_pos: "0 < ulp" by (simp add: ulp)
  have split: "2 ^ 52 * ulp = pow2 e"
  proof -
    have "nat e = 52 + nat (e - 52)" using e53 by simp
    then have "(2::rat) ^ nat e = 2 ^ 52 * 2 ^ nat (e - 52)"
      by (simp only: power_add)
    then show ?thesis by (simp add: ulp pow2e)
  qed
  have "2 ^ 52 * ulp \<le> a" using pow2e_le split by simp
  then have "2 ^ 52 \<le> a / ulp" using ulp_pos by (simp add: pos_le_divide_eq)
  then have "(of_int (2 ^ 52) :: rat) \<le> a / ulp" by simp
  then have "2 ^ 52 \<le> \<lfloor>a / ulp\<rfloor>" by (simp only: le_floor_iff)
  with floor_le_round_half_even [of "a / ulp"]
  have k: "2 ^ 52 \<le> round_half_even (a / ulp)" by linarith
  define r where "r = of_int (round_half_even (a / ulp)) * ulp"
  have "(of_int (2 ^ 52) :: rat) \<le> of_int (round_half_even (a / ulp))"
    using k by (simp only: of_int_le_iff)
  then have "2 ^ 52 * ulp \<le> r"
    unfolding r_def using ulp_pos by (simp add: mult_right_mono)
  moreover have "(2::rat) ^ 53 \<le> pow2 e"
    unfolding pow2e using e53 by (intro power_increasing) simp_all
  ultimately have r53: "2 ^ 53 \<le> r" using split by simp
  have n0: "(of_int n :: rat) \<noteq> 0" using big by auto
  have eq: "double_of_rat (of_int n) =
      (if pow2 1024 \<le> r then (if 0 < (of_int n :: rat) then PInf else NInf)
       else Fin (if 0 < (of_int n :: rat) then r else - r))"
    using n0 unfolding double_of_rat_def Let_def a_def [symmetric] emax ulp_def [symmetric]
      r_def [symmetric]
    by simp
  show ?thesis
    unfolding eq using r53 by (simp split: if_splits)
qed

lemma py_float_int_in_range:
  assumes "py_float (PNum (PInt n)) = Inr x" and "fl_le (Fin lo) x" and "fl_le x (Fin hi)"
    and "- (2 ^ 53) < lo" and "hi < 2 ^ 53"
  shows "x = Fin (of_int n)"
proof (cases "\<bar>n\<bar> \<le> 2 ^ 53")
  case True
  with assms(1) show ?thesis by simp
next
  case False
  then have big: "2 ^ 53 < \<bar>n\<bar>" by simp
  from False assms(1) have x: "x = double_of_rat (of_int n)"
    by (simp split: if_splits)
  from big_int_double [OF big] assms(2,3,4,5) show ?thesis
    unfolding x [symmetric] by (cases x) (auto split: if_splits)
qed

section \<open>The two validators\<close>

lemma check_ranges_append:
  "check_ranges data (a @ b) =
     (case check_ranges data b of Inl e \<Rightarrow> Inl e | Inr out \<Rightarrow> Inr (a @ out))"
proof (induction data arbitrary: b)
  case Nil
  show ?case by simp
next
  case (Cons item rest)
  obtain feature v where item: "item = (feature, v)" by (cases item)
  have step: "check_ranges rest (a @ b @ [m]) =
      (case check_ranges rest (b @ [m]) of Inl e \<Rightarrow> Inl e | Inr out \<Rightarrow> Inr (a @ out))" for m
    using Cons.IH [of "b @ [m]"] by simp
  show ?case
    unfolding item
    by (simp add: Cons.IH step split: option.splits sum.splits prod.splits)
qed

lemma check_ranges_keeps:
  assumes "check_ranges data errs = Inr out"
  shows "set errs \<subseteq> set out"
proof -
  from assms check_ranges_append [of data errs "[]"]
  obtain new where "out = errs @ new"
    by (auto split: sum.splits)
  then show ?thesis by simp
qed

lemma check_ranges_outside:
  assumes "check_ranges data errs = Inr out" and "(f, v) \<in> set data"
    and "map_of FEATURE_RANGES f = Some (lo, hi)" and "py_float v = Inr x"
    and "\<not> (fl_le lo x \<and> fl_le x hi)"
  shows "outside_range_message f x lo hi \<in> set out"
  using assms
proof (induction data arbitrary: errs)
  case Nil
  then show ?case by simp
next
  case (Cons item rest)
  show ?case
  proof (cases "item = (f, v)")
    case True
    with Cons.prems have "check_ranges rest (errs @ [outside_range_message f x lo hi]) = Inr out"
      by auto
    from check_ranges_keeps [OF this] show ?thesis by simp
  next
    case False
    with Cons.prems have mem: "(f, v) \<in> set rest" by simp
    obtain g w where item: "item = (g, w)" by (cases item)
    from Cons.prems(1) obtain errs' where "check_ranges rest errs' = Inr out"
      unfolding item by (auto split: option.splits sum.splits prod.splits if_splits)
    from Cons.IH [OF this mem Cons.prems(3,4,5)] show ?thesis .
  qed
qed

lemma check_ranges_invalid:
  assumes "check_ranges data errs = Inr out" and "(f, v) \<in> set data"
    and "map_of FEATURE_RANGES f = Some (lo, hi)"
    and "py_float v = Inl ValueError \<or> py_float v = Inl TypeError"
  shows "invalid_numeric_message f \<in> set out"
  using assms
proof (induction data arbitrary: errs)
  case Nil
  then show ?case by simp
next
  case (Cons item rest)
  show ?case
  proof (cases "item = (f, v)")
    case True
    with Cons.prems have "check_ranges rest (errs @ [invalid_numeric_message f]) = Inr out"
      by auto
    from check_ranges_keeps [OF this] show ?thesis by simp
  next
    case False
    with Cons.prems have mem: "(f, v) \<in> set rest" by simp
    obtain g w where item: "item = (g, w)" by (cases item)
    from Cons.prems(1) obtain errs' where "check_ranges rest errs' = Inr out"
      unfolding item by (auto split: option.splits sum.splits prod.splits if_splits)
    from Cons.IH [OF this mem Cons.prems(3,4)] show ?thesis .
  qed
qed

lemma check_ranges_empty_iff:
  "check_ranges data [] = Inr [] \<longleftrightarrow>
     (\<forall>(f, v) \<in> set data. \<forall>lo hi. map_of FEATURE_RANGES f = Some (lo, hi) \<longrightarrow>
        (\<exists>x. py_float v = Inr x \<and> fl_le lo x \<and> fl_le x hi))"
proof (induction data)
  case Nil
  show ?case by simp
next
  case (Cons item rest)
  obtain g w where item: "item = (g, w)" by (cases item)
  have ne: "check_ranges rest [m] \<noteq> Inr []" for m
    using check_ranges_keeps [of rest "[m]" "[]"] by auto
  show ?case
    unfolding item using Cons.IH ne
    by (auto split: option.splits sum.splits prod.splits if_splits)
qed

lemma check_items_fails:
  assumes "(k, v) \<in> set data"
    and "as_number v = None \<or>
         (\<exists>n lo hi. as_number v = Some n \<and> map_of ranges k = Some (lo, hi) \<and> \<not> between lo n hi)"
  shows "\<not> fst (check_items data)"
  using assms
  by (induction data) (auto split: option.splits prod.splits if_splits)

lemma check_items_first:
  assumes "check_items pre = (True, m0)"
  shows "check_items (pre @ rest) = check_items rest"
  using assms
  by (induction pre) (auto split: option.splits prod.splits if_splits)

lemma check_items_ok_iff:
  "fst (check_items data) \<longleftrightarrow>
     (\<forall>(k, v) \<in> set data. \<exists>n. as_number v = Some n \<and>
        (\<forall>lo hi. map_of ranges k = Some (lo, hi) \<longrightarrow> between lo n hi))"
  by (induction data) (auto split: option.splits prod.splits)

lemma check_items_ok_message:
  "fst (check_items data) \<Longrightarrow> check_items data = (True, [Lit ''Input validation successful''])"
  by (induction data) (auto split: option.splits prod.splits if_splits)

section \<open>Missing features\<close>

lemma FEATURE_RANGES_cases:
  "map_of FEATURE_RANGES f = Some (lo, hi) \<Longrightarrow>
     (case lo of Fin a \<Rightarrow> (case hi of Fin b \<Rightarrow> 0 \<le> a \<and> a \<le> b \<and> b \<le> 269 | _ \<Rightarrow> False)
      | _ \<Rightarrow> False)"
  by (auto simp: FEATURE_RANGES_def split: if_splits)

lemma FEATURE_RANGES_bounds:
  assumes "map_of FEATURE_RANGES f = Some (lo, hi)"
  shows "\<exists>a b. lo = Fin a \<and> hi = Fin b \<and> 0 \<le> a \<and> a \<le> b \<and> b \<le> 269"
  using FEATURE_RANGES_cases [OF assms] by (cases lo; cases hi) simp_all

lemma FEATURE_RANGES_dom: "(map_of FEATURE_RANGES f \<noteq> None) = (f \<in> set FEATURE_NAMES)"
  by (auto simp: FEATURE_RANGES_def FEATURE_NAMES_def)

lemma agent_reports_missing_features:
  "filter (\<lambda>f. f \<notin> set (map fst data)) (feature_names self) \<noteq> [] \<Longrightarrow>
     FetalHealthAgent_validate_input self data =
       (False, missing_message (filter (\<lambda>f. f \<notin> set (map fst data)) (feature_names self)))"
  by (simp add: FetalHealthAgent_validate_input_def Let_def)

lemma app_reports_missing_features:
  assumes "validate_input data = Inr errors"
    and "filter (\<lambda>f. f \<notin> set (map fst data)) FEATURE_NAMES \<noteq> []"
  shows "missing_message (filter (\<lambda>f. f \<notin> set (map fst data)) FEATURE_NAMES) \<in> set errors"
  using assms check_ranges_keeps
    [of data "[missing_message (filter (\<lambda>f. f \<notin> set (map fst data)) FEATURE_NAMES)]" errors]
  by (simp add: validate_input_def Let_def)

lemma app_valid_none_missing:
  assumes "validate_input data = Inr []"
  shows "filter (\<lambda>f. f \<notin> set (map fst data)) FEATURE_NAMES = []"
    and "check_ranges data [] = Inr []"
proof -
  show a: "filter (\<lambda>f. f \<notin> set (map fst data)) FEATURE_NAMES = []"
  proof (rule ccontr)
    assume "filter (\<lambda>f. f \<notin> set (map fst data)) FEATURE_NAMES \<noteq> []"
    from app_reports_missing_features [OF assms this] show False by simp
  qed
  from assms show "check_ranges data [] = Inr []"
    unfolding validate_input_def Let_def a by simp
qed

text \<open>
  C2. A request that lacks a schema feature must fail validation with the error that names
  the absent features. The agent does so for every request, and the form app whenever its
  validator returns (the two lemmas above). But the form app converts each recognized value
  with \<open>float\<close> and catches only ValueError and TypeError: for the request
  \<open>{"accelerations": 10 ** 400}\<close>, which lacks seven features, the conversion raises
  OverflowError and \<open>validate_input\<close>, and with it \<open>make_prediction\<close>, raises instead of
  returning the error.
\<close>

theorem app_validation_raises_on_huge_int:
  "validate_input [(''accelerations'', PNum (PInt (10 ^ 400)))] = Inl OverflowError
   \<and> make_prediction (Some m) now [(''accelerations'', PNum (PInt (10 ^ 400)))] =
       (Inl OverflowError, [Validate [(''accelerations'', PNum (PInt (10 ^ 400)))]])"
proof -
  have v: "validate_input [(''accelerations'', PNum (PInt (10 ^ 400)))] = Inl OverflowError"
    by (simp add: validate_input_def FEATURE_RANGES_def FEATURE_NAMES_def)
  then show ?thesis by (simp add: make_prediction_def)
qed

section \<open>Values out of range\<close>

lemma invalid_range_data_app:
  "validate_input invalid_range_data =
     Inr [outside_range_message ''prolongued_decelerations'' (Fin 999) (Fin 0)
            (Fin (5764607523034235 / 2 ^ 60))]"
  by (simp add: validate_input_def invalid_range_data_def get_sample_data_def FEATURE_RANGES_def
      FEATURE_NAMES_def)

lemma invalid_range_data_agent:
  "FetalHealthAgent_validate_input (init ex ld) invalid_range_data =
     (False, between_message ''prolongued_decelerations'' (Fin 0)
        (Fin (5764607523034235 / 2 ^ 60)))"
  by (simp add: FetalHealthAgent_validate_input_def invalid_range_data_def get_sample_data_def
      ranges_def FEATURE_NAMES_def between_def)

text \<open>
  C3, as stated, fails on the agent: for the sample with \<open>prolongued_decelerations\<close> set to
  999 its message is \<open>Value for prolongued_decelerations should be between 0.0 and 0.005\<close>,
  which names the feature and the bounds and not the value.
\<close>

theorem agent_range_message_omits_value:
  "FetalHealthAgent_validate_input (init False (Inl KeyError)) invalid_range_data =
     (False, between_message ''prolongued_decelerations'' (Fin 0)
        (Fin (5764607523034235 / 2 ^ 60)))
   \<and> Str (Fin 999) \<notin> set (between_message ''prolongued_decelerations'' (Fin 0)
        (Fin (5764607523034235 / 2 ^ 60)))"
  by (simp add: invalid_range_data_agent between_message_def)

section \<open>Values that are not numbers\<close>

lemma float_of_numeric_strings:
  "py_float (PStr ''130.0'') = Inr (Fin 130)"
  "py_float (PStr ''120'') = Inr (Fin 120)"
  by code_simp+

lemma string_median_data_app: "validate_input string_median_data = Inr []"
  by (simp add: validate_input_def string_median_data_def get_sample_data_def FEATURE_RANGES_def
      FEATURE_NAMES_def float_of_numeric_strings del: py_float.simps(4))

lemma null_median_data_app:
  "validate_input null_median_data = Inr [invalid_numeric_message ''histogram_median'']"
  by (simp add: validate_input_def null_median_data_def get_sample_data_def FEATURE_RANGES_def
      FEATURE_NAMES_def)

lemma null_median_data_agent:
  "FetalHealthAgent_validate_input (init ex ld) null_median_data =
     (False, invalid_type_message ''histogram_median'' PNone)"
  by (simp add: FetalHealthAgent_validate_input_def null_median_data_def get_sample_data_def
      ranges_def FEATURE_NAMES_def between_def)

text \<open>
  C4, as stated, fails on the form app: the sample with the string \<open>"130.0"\<close> for
  \<open>histogram_median\<close>, a value that is neither an int nor a float, passes validation with
  no error, since \<open>float("130.0")\<close> is 130.0.
\<close>

theorem app_accepts_numeric_string:
  "as_number (PStr ''130.0'') = None
   \<and> map_of string_median_data ''histogram_median'' = Some (PStr ''130.0'')
   \<and> validate_input string_median_data = Inr []"
  by (simp add: string_median_data_app) (simp add: string_median_data_def get_sample_data_def)

text \<open>
  C4, amended. In the agent, a request in which any value, of a recognized key or not, is
  not a bool, an int or a float never passes validation, and the result is the type error
  for that item when no feature is missing and every earlier item passes its checks. In
  the form app, when \<open>validate_input\<close> returns, its errors hold \<open>invalid numeric value\<close> for
  every recognized feature on whose value \<open>float\<close> raises ValueError or TypeError, and it
  returns no error only if \<open>float\<close> converts every recognized value to a number within
  bounds; \<open>float\<close> raises TypeError on None, lists and dicts, and on a string ValueError
  unless the string parses as a number.
\<close>

theorem non_numeric_values:
  "((k, v) \<in> set data \<longrightarrow> as_number v = None \<longrightarrow>
      \<not> fst (FetalHealthAgent_validate_input self data))
   \<and> (filter (\<lambda>g. g \<notin> set (map fst (pre @ (k', v') # post))) (feature_names self') = [] \<longrightarrow>
      check_items pre = (True, m0) \<longrightarrow> as_number v' = None \<longrightarrow>
      FetalHealthAgent_validate_input self' (pre @ (k', v') # post) =
        (False, invalid_type_message k' v'))
   \<and> (validate_input data' = Inr errors \<longrightarrow> (f, w) \<in> set data' \<longrightarrow>
      map_of FEATURE_RANGES f = Some (lo, hi) \<longrightarrow>
      (py_float w = Inl ValueError \<or> py_float w = Inl TypeError) \<longrightarrow>
      invalid_numeric_message f \<in> set errors)
   \<and> (validate_input data'' = Inr [] \<longrightarrow> (f', w') \<in> set data'' \<longrightarrow>
      map_of FEATURE_RANGES f' = Some (lo', hi') \<longrightarrow>
      (\<exists>x. py_float w' = Inr x \<and> fl_le lo' x \<and> fl_le x hi'))
   \<and> py_float PNone = Inl TypeError \<and> py_float (PList l) = Inl TypeError
   \<and> py_float (PDict d) = Inl TypeError
   \<and> py_float (PStr s) = (case float_of_str s of None \<Rightarrow> Inl ValueError | Some x \<Rightarrow> Inr x)"
proof (intro conjI impI)
  assume "(k, v) \<in> set data" "as_number v = None"
  then have "\<not> fst (check_items data)"
    by (intro check_items_fails [of k v]) auto
  then show "\<not> fst (FetalHealthAgent_validate_input self data)"
    by (simp add: FetalHealthAgent_validate_input_def Let_def)
next
  assume "filter (\<lambda>g. g \<notin> set (map fst (pre @ (k', v') # post))) (feature_names self') = []"
    "check_items pre = (True, m0)" "as_number v' = None"
  then show "FetalHealthAgent_validate_input self' (pre @ (k', v') # post) =
      (False, invalid_type_message k' v')"
    by (simp add: FetalHealthAgent_validate_input_def Let_def check_items_first)
next
  assume "validate_input data' = Inr errors" "(f, w) \<in> set data'"
    "map_of FEATURE_RANGES f = Some (lo, hi)"
    "py_float w = Inl ValueError \<or> py_float w = Inl TypeError"
  then show "invalid_numeric_message f \<in> set errors"
    unfolding validate_input_def Let_def by (rule check_ranges_invalid)
next
  assume v: "validate_input data'' = Inr []" and mem: "(f', w') \<in> set data''"
    and r: "map_of FEATURE_RANGES f' = Some (lo', hi')"
  from app_valid_none_missing(2) [OF v] have "check_ranges data'' [] = Inr []" .
  with mem r show "\<exists>x. py_float w' = Inr x \<and> fl_le lo' x \<and> fl_le x hi'"
    unfolding check_ranges_empty_iff by blast
qed simp_all

theorem non_numeric_values_witness:
  "\<not> fst (FetalHealthAgent_validate_input (init False (Inl KeyError)) null_median_data)
   \<and> FetalHealthAgent_validate_input (init False (Inl KeyError))
        (take 4 get_sample_data @ (''histogram_median'', PNone) # drop 5 get_sample_data) =
      (False, invalid_type_message ''histogram_median'' PNone)
   \<and> invalid_numeric_message ''histogram_median''
        \<in> set [invalid_numeric_message ''histogram_median'']
   \<and> (\<exists>x. py_float (PStr ''130.0'') = Inr x \<and> fl_le (Fin 77) x \<and> fl_le x (Fin 186))"
proof -
  have mem: "(''histogram_median'', PNone) \<in> set null_median_data"
    by (simp add: null_median_data_def get_sample_data_def)
  have mem': "(''histogram_median'', PStr ''130.0'') \<in> set string_median_data"
    by (simp add: string_median_data_def get_sample_data_def)
  have r: "map_of FEATURE_RANGES ''histogram_median'' = Some (Fin 77, Fin 186)"
    by (simp add: FEATURE_RANGES_def)
  have nomiss: "filter (\<lambda>g. g \<notin> set (map fst
        (take 4 get_sample_data @ (''histogram_median'', PNone) # drop 5 get_sample_data)))
      (feature_names (init False (Inl KeyError))) = []"
    by (simp add: get_sample_data_def FEATURE_NAMES_def)
  have pre: "check_items (take 4 get_sample_data) = (True, [Lit ''Input validation successful''])"
    by (simp add: get_sample_data_def ranges_def between_def)
  have num: "as_number PNone = None" by simp
  have pf: "py_float PNone = Inl ValueError \<or> py_float PNone = Inl TypeError" by simp
  show ?thesis
    using non_numeric_values
      [where k = "''histogram_median''" and v = PNone and data = null_median_data
         and self = "init False (Inl KeyError)"
         and pre = "take 4 get_sample_data" and k' = "''histogram_median''" and v' = PNone
         and post = "drop 5 get_sample_data" and self' = "init False (Inl KeyError)"
         and ?m0.0 = "[Lit ''Input validation successful'']"
         and data' = null_median_data
         and errors = "[invalid_numeric_message ''histogram_median'']"
         and f = "''histogram_median''" and w = PNone and lo = "Fin 77" and hi = "Fin 186"
         and data'' = string_median_data and f' = "''histogram_median''"
         and w' = "PStr ''130.0''" and lo' = "Fin 77" and hi' = "Fin 186"
         and l = "[]" and d = "[]" and s = "[]"]
      mem mem' r nomiss pre num pf null_median_data_app string_median_data_app
    by (simp del: py_float.simps fl_le.simps)
qed

section \<open>Extra keys\<close>

lemma py_float_exact:
  assumes "as_number v = Some n" and "between (Fin a) n (Fin b)"
    and "- (2 ^ 53) \<le> a" and "b \<le> 2 ^ 53"
  shows "py_float v = Inr (num_val n)"
proof (cases v)
  case (PBool t)
  with assms(1) show ?thesis by auto
next
  case (PNum m)
  with assms(1) have nm: "n = m" by simp
  show ?thesis
  proof (cases m)
    case (PInt i)
    from assms(2) have "a \<le> of_int i" "of_int i \<le> b"
      by (simp_all add: between_def nm PInt)
    with assms(3,4) have "- (2 ^ 53) \<le> (of_int i :: rat)" "(of_int i :: rat) \<le> 2 ^ 53"
      by linarith+
    then have "(of_int (- (2 ^ 53)) :: rat) \<le> of_int i" "(of_int i :: rat) \<le> of_int (2 ^ 53)"
      by simp_all
    then have "- (2 ^ 53) \<le> i" "i \<le> 2 ^ 53"
      by (simp_all only: of_int_le_iff)
    then have "\<bar>i\<bar> \<le> 2 ^ 53" by simp
    then show ?thesis by (simp add: PNum PInt nm)
  next
    case (PFloat x)
    then show ?thesis by (simp add: PNum nm)
  qed
qed (use assms(1) in simp_all)

lemma py_float_number_in_range:
  assumes "as_number v = Some n" and "py_float v = Inr x"
    and "fl_le (Fin lo) x" and "fl_le x (Fin hi)" and "- (2 ^ 53) < lo" and "hi < 2 ^ 53"
  shows "x = num_val n"
proof (cases v)
  case (PBool t)
  with assms(1,2) show ?thesis by auto
next
  case (PNum m)
  with assms(1) have nm: "n = m" by simp
  show ?thesis
  proof (cases m)
    case (PInt i)
    from py_float_int_in_range [OF assms(2) [unfolded PNum PInt] assms(3,4,5,6)]
    show ?thesis by (simp add: nm PInt)
  next
    case (PFloat y)
    with assms(2) show ?thesis by (simp add: PNum nm)
  qed
qed (use assms(1) in simp_all)

lemma no_missing_iff:
  "filter (\<lambda>f. f \<notin> set (map fst data)) names = [] \<longleftrightarrow> set names \<subseteq> set (map fst data)"
  by (auto simp: filter_empty_conv)

text \<open>
  C5, as stated, fails on the agent: the sample request with the extra key \<open>note\<close> whose
  value is the string \<open>abc\<close> fails its validation with the type error for \<open>note\<close>, though
  all eight features are present, numeric and within bounds. The form app accepts it.
\<close>

theorem agent_rejects_extra_string:
  "FetalHealthAgent_validate_input (init False (Inl KeyError)) extra_key_data =
     (False, invalid_type_message ''note'' (PStr ''abc''))
   \<and> map_of FEATURE_RANGES ''note'' = None
   \<and> validate_input extra_key_data = Inr []"
  by (simp add: FetalHealthAgent_validate_input_def validate_input_def extra_key_data_def
      get_sample_data_def ranges_def FEATURE_RANGES_def FEATURE_NAMES_def between_def)

text \<open>
  C5, amended. For a request that holds all eight schema features with numeric values
  within their bounds, the form app's validation succeeds whatever other keys the request
  has; the agent's validation succeeds exactly when the value of every other key is a
  number (a bool, an int or a float) too.
\<close>

theorem extra_keys:
  assumes present: "set FEATURE_NAMES \<subseteq> set (map fst data)"
    and ok: "\<forall>(f, v) \<in> set data. \<forall>lo hi. map_of FEATURE_RANGES f = Some (lo, hi) \<longrightarrow>
               (\<exists>n. as_number v = Some n \<and> between lo n hi)"
  shows "validate_input data = Inr []
    \<and> (FetalHealthAgent_validate_input (init ex ld) data =
          (True, [Lit ''Input validation successful''])
        \<longleftrightarrow> (\<forall>(k, v) \<in> set data. as_number v \<noteq> None))
    \<and> (fst (FetalHealthAgent_validate_input (init ex ld) data)
        \<longleftrightarrow> (\<forall>(k, v) \<in> set data. as_number v \<noteq> None))"
proof -
  have nomiss: "filter (\<lambda>f. f \<notin> set (map fst data)) FEATURE_NAMES = []"
    using present by (simp only: no_missing_iff)
  have conv: "\<exists>x. py_float v = Inr x \<and> fl_le lo x \<and> fl_le x hi"
    if mem: "(f, v) \<in> set data" and r: "map_of FEATURE_RANGES f = Some (lo, hi)" for f v lo hi
  proof -
    from ok mem r obtain n where n: "as_number v = Some n" "between lo n hi" by blast
    from FEATURE_RANGES_bounds [OF r] obtain a b
      where ab: "lo = Fin a" "hi = Fin b" "0 \<le> a" "b \<le> 269" by blast
    have "py_float v = Inr (num_val n)"
      using n ab by (intro py_float_exact [of v n a b]) auto
    with n(2) show ?thesis by (simp add: between_def)
  qed
  have app: "validate_input data = Inr []"
    unfolding validate_input_def Let_def nomiss
    using conv by (simp add: check_ranges_empty_iff) blast
  have agent: "fst (FetalHealthAgent_validate_input (init ex ld) data)
      \<longleftrightarrow> (\<forall>(k, v) \<in> set data. as_number v \<noteq> None)"
  proof -
    have "fst (check_items data) \<longleftrightarrow> (\<forall>(k, v) \<in> set data. as_number v \<noteq> None)"
      unfolding check_items_ok_iff ranges_eq using ok by fastforce
    then show ?thesis
      unfolding FetalHealthAgent_validate_input_def Let_def init_simps nomiss by simp
  qed
  have msg: "FetalHealthAgent_validate_input (init ex ld) data =
        (True, [Lit ''Input validation successful''])
      \<longleftrightarrow> fst (FetalHealthAgent_validate_input (init ex ld) data)"
    using check_items_ok_message [of data]
    by (auto simp: FetalHealthAgent_validate_input_def Let_def nomiss)
  show ?thesis using app agent msg by simp
qed

theorem extra_keys_witness:
  "validate_input extra_key_data = Inr []
   \<and> \<not> fst (FetalHealthAgent_validate_input (init False (Inl KeyError)) extra_key_data)"
proof -
  have present: "set FEATURE_NAMES \<subseteq> set (map fst extra_key_data)"
    by (simp add: extra_key_data_def get_sample_data_def FEATURE_NAMES_def)
  have ok: "\<forall>(f, v) \<in> set extra_key_data. \<forall>lo hi. map_of FEATURE_RANGES f = Some (lo, hi) \<longrightarrow>
      (\<exists>n. as_number v = Some n \<and> between lo n hi)"
    by (simp add: extra_key_data_def get_sample_data_def FEATURE_RANGES_def between_def)
  have bad: "\<not> (\<forall>(k, v) \<in> set extra_key_data. as_number v \<noteq> None)"
    by (simp add: extra_key_data_def)
  from extra_keys [OF present ok, of False "Inl KeyError"] bad show ?thesis by simp
qed

section \<open>The feature vector\<close>

lemma float_features_ok:
  assumes "\<forall>f \<in> set names. \<exists>v x. map_of data f = Some v \<and> py_float v = Inr x"
  shows "\<exists>xs. float_features data names = Inr xs \<and> length xs = length names
    \<and> (\<forall>i < length names. \<exists>v. map_of data (names ! i) = Some v \<and> py_float v = Inr (xs ! i))"
  using assms
proof (induction names)
  case Nil
  show ?case by simp
next
  case (Cons f fs)
  from Cons.prems obtain v x where v: "map_of data f = Some v" "py_float v = Inr x"
    by auto
  from Cons obtain xs where xs: "float_features data fs = Inr xs" "length xs = length fs"
    "\<forall>i < length fs. \<exists>v. map_of data (fs ! i) = Some v \<and> py_float v = Inr (xs ! i)"
    by auto
  have "\<exists>w. map_of data ((f # fs) ! i) = Some w \<and> py_float w = Inr ((x # xs) ! i)"
    if "i < length (f # fs)" for i
    using that v xs(3) by (cases i) auto
  then show ?case using v xs(1,2) by simp
qed

lemma lookup_features_ok:
  assumes "\<forall>f \<in> set names. \<exists>v. map_of data f = Some v"
  shows "\<exists>vs. lookup_features data names = Inr vs \<and> length vs = length names
    \<and> (\<forall>i < length names. map_of data (names ! i) = Some (vs ! i))"
  using assms
proof (induction names)
  case Nil
  show ?case by simp
next
  case (Cons f fs)
  from Cons.prems obtain v where v: "map_of data f = Some v" by auto
  from Cons obtain vs where vs: "lookup_features data fs = Inr vs" "length vs = length fs"
    "\<forall>i < length fs. map_of data (fs ! i) = Some (vs ! i)"
    by auto
  have "map_of data ((f # fs) ! i) = Some ((v # vs) ! i)" if "i < length (f # fs)" for i
    using that v vs(3) by (cases i) auto
  then show ?case using v vs(1,2) by simp
qed

lemma present_lookup:
  assumes "filter (\<lambda>f. f \<notin> set (map fst data)) names = []" and "f \<in> set names"
  shows "\<exists>v. map_of data f = Some v \<and> (f, v) \<in> set data"
proof -
  from assms have "f \<in> set (map fst data)" by (auto simp: filter_empty_conv)
  then have "map_of data f \<noteq> None" by (simp add: map_of_eq_None_iff)
  then obtain v where "map_of data f = Some v" by auto
  then show ?thesis by (auto dest: map_of_SomeD)
qed

lemma np_array_row_length: "length (np_array_row vs) = length vs"
  by (simp add: np_array_row_def)

lemma np_array_row_nth:
  assumes "\<forall>v \<in> set vs. \<exists>n. as_number v = Some n \<and> py_float v = Inr (num_val n)"
    and "i < length vs"
  shows "\<exists>n m. as_number (vs ! i) = Some n \<and> as_number (np_array_row vs ! i) = Some m
    \<and> num_val m = num_val n"
proof -
  from assms obtain n where n: "as_number (vs ! i) = Some n" "py_float (vs ! i) = Inr (num_val n)"
    using nth_mem by blast
  have f: "as_number (to_float64 (vs ! i)) = Some (PFloat (num_val n))"
    by (simp add: to_float64_def n)
  have g: "\<exists>m. as_number (to_int64 (vs ! i)) = Some m \<and> num_val m = num_val n"
    using n(1) by (cases "vs ! i") auto
  show ?thesis using n(1) f g assms(2) by (auto simp: np_array_row_def)
qed

lemma string_mode_data_app: "validate_input string_mode_data = Inr []"
  by (simp add: validate_input_def string_mode_data_def get_sample_data_def FEATURE_RANGES_def
      FEATURE_NAMES_def float_of_numeric_strings del: py_float.simps(4))

text \<open>
  C6, as stated, fails on the form app: the sample with the string \<open>"120"\<close> for
  \<open>histogram_mode\<close> passes validation, and the seventh entry of the vector is the float
  120.0, which is not the request's value, a string.
\<close>

theorem app_vector_entry_is_converted:
  "validate_input string_mode_data = Inr []
   \<and> map_of string_mode_data ''histogram_mode'' = Some (PStr ''120'')
   \<and> float_features string_mode_data FEATURE_NAMES =
       Inr [Fin (1152921504606847 / 2 ^ 59), Fin 50, Fin 45, Fin 134, Fin 130, Fin 25, Fin 120,
            Fin (5764607523034235 / 2 ^ 59)]
   \<and> FEATURE_NAMES ! 6 = ''histogram_mode''
   \<and> PNum (PFloat (Fin 120)) \<noteq> PStr ''120''"
  by (simp add: string_mode_data_app)
    (simp add: string_mode_data_def get_sample_data_def FEATURE_NAMES_def
      float_of_numeric_strings del: py_float.simps(4))

text \<open>
  C6, amended. For every request that passes validation, the vector has exactly eight
  entries, in the schema order (prolongued_decelerations, abnormal_short_term_variability,
  percentage_abnormal_long_term_variability, histogram_variance, histogram_median,
  mean_long_term_variability, histogram_mode, accelerations). In the form app the entry
  at place \<open>i\<close> is \<open>float\<close> of the request's value for the feature at place \<open>i\<close>, the same
  number whenever that value is a number (a bool, an int or a float). In the agent it is
  the request's value itself, a number, and the row that numpy makes of the vector has
  eight numbers of the same values.
\<close>

theorem vector_in_schema_order:
  "FEATURE_NAMES =
     [''prolongued_decelerations'', ''abnormal_short_term_variability'',
      ''percentage_abnormal_long_term_variability'', ''histogram_variance'',
      ''histogram_median'', ''mean_long_term_variability'', ''histogram_mode'',
      ''accelerations'']
   \<and> (validate_input data = Inr [] \<longrightarrow>
        (\<exists>xs. float_features data FEATURE_NAMES = Inr xs \<and> length xs = 8
           \<and> (\<forall>i < 8. \<exists>v. map_of data (FEATURE_NAMES ! i) = Some v
                \<and> py_float v = Inr (xs ! i)
                \<and> (\<forall>n. as_number v = Some n \<longrightarrow> xs ! i = num_val n))))
   \<and> (fst (FetalHealthAgent_validate_input (init ex ld) data') \<longrightarrow>
        (\<exists>vs. lookup_features data' (feature_names (init ex ld)) = Inr vs \<and> length vs = 8
           \<and> length (np_array_row vs) = 8
           \<and> (\<forall>i < 8. map_of data' (feature_names (init ex ld) ! i) = Some (vs ! i)
                \<and> (\<exists>n m. as_number (vs ! i) = Some n
                      \<and> as_number (np_array_row vs ! i) = Some m
                      \<and> num_val m = num_val n))))"
proof (intro conjI impI)
  show "FEATURE_NAMES =
     [''prolongued_decelerations'', ''abnormal_short_term_variability'',
      ''percentage_abnormal_long_term_variability'', ''histogram_variance'',
      ''histogram_median'', ''mean_long_term_variability'', ''histogram_mode'',
      ''accelerations'']"
    by (simp add: FEATURE_NAMES_def)
next
  assume valid: "validate_input data = Inr []"
  note nomiss = app_valid_none_missing(1) [OF valid]
  note chk = app_valid_none_missing(2) [OF valid]
  have len: "length FEATURE_NAMES = 8" by (simp add: FEATURE_NAMES_def)
  have item: "\<exists>x. py_float v = Inr x \<and> (\<forall>n. as_number v = Some n \<longrightarrow> x = num_val n)"
    if mem: "(f, v) \<in> set data" and f: "f \<in> set FEATURE_NAMES" for f v
  proof -
    from f have "map_of FEATURE_RANGES f \<noteq> None" by (simp only: FEATURE_RANGES_dom)
    then obtain lo hi where r: "map_of FEATURE_RANGES f = Some (lo, hi)" by auto
    from chk mem r obtain x where x: "py_float v = Inr x" "fl_le lo x" "fl_le x hi"
      unfolding check_ranges_empty_iff by blast
    from FEATURE_RANGES_bounds [OF r] obtain a b
      where ab: "lo = Fin a" "hi = Fin b" "0 \<le> a" "b \<le> 269" by blast
    have "x = num_val n" if "as_number v = Some n" for n
      using that x ab by (intro py_float_number_in_range [of v n x a b]) auto
    with x(1) show ?thesis by blast
  qed
  have all: "\<forall>f \<in> set FEATURE_NAMES. \<exists>v x. map_of data f = Some v \<and> py_float v = Inr x"
  proof
    fix f assume f: "f \<in> set FEATURE_NAMES"
    from present_lookup [OF nomiss f] obtain v
      where v: "map_of data f = Some v" "(f, v) \<in> set data" by blast
    from item [OF v(2) f] v(1) show "\<exists>v x. map_of data f = Some v \<and> py_float v = Inr x"
      by blast
  qed
  from float_features_ok [OF all] obtain xs
    where xs: "float_features data FEATURE_NAMES = Inr xs" "length xs = length FEATURE_NAMES"
      "\<forall>i < length FEATURE_NAMES. \<exists>v. map_of data (FEATURE_NAMES ! i) = Some v
          \<and> py_float v = Inr (xs ! i)"
    by blast
  have "\<exists>v. map_of data (FEATURE_NAMES ! i) = Some v \<and> py_float v = Inr (xs ! i)
      \<and> (\<forall>n. as_number v = Some n \<longrightarrow> xs ! i = num_val n)" if i: "i < 8" for i
  proof -
    from xs(3) i len obtain v
      where v: "map_of data (FEATURE_NAMES ! i) = Some v" "py_float v = Inr (xs ! i)"
      by auto
    have f: "FEATURE_NAMES ! i \<in> set FEATURE_NAMES" using i len by simp
    from map_of_SomeD [OF v(1)] have "(FEATURE_NAMES ! i, v) \<in> set data" .
    from item [OF this f] v(2) have "\<forall>n. as_number v = Some n \<longrightarrow> xs ! i = num_val n"
      by auto
    with v show ?thesis by blast
  qed
  with xs(1,2) len
  show "\<exists>xs. float_features data FEATURE_NAMES = Inr xs \<and> length xs = 8
      \<and> (\<forall>i < 8. \<exists>v. map_of data (FEATURE_NAMES ! i) = Some v \<and> py_float v = Inr (xs ! i)
           \<and> (\<forall>n. as_number v = Some n \<longrightarrow> xs ! i = num_val n))"
    by auto
next
  assume valid: "fst (FetalHealthAgent_validate_input (init ex ld) data')"
  have len: "length FEATURE_NAMES = 8" by (simp add: FEATURE_NAMES_def)
  have nomiss: "filter (\<lambda>f. f \<notin> set (map fst data')) FEATURE_NAMES = []"
  proof (rule ccontr)
    assume "filter (\<lambda>f. f \<notin> set (map fst data')) FEATURE_NAMES \<noteq> []"
    with valid show False
      unfolding FetalHealthAgent_validate_input_def Let_def init_simps by simp
  qed
  from valid have chk: "fst (check_items data')"
    unfolding FetalHealthAgent_validate_input_def Let_def init_simps nomiss by simp
  have all: "\<forall>f \<in> set FEATURE_NAMES. \<exists>v. map_of data' f = Some v"
    using present_lookup [OF nomiss] by blast
  from lookup_features_ok [OF all] obtain vs
    where vs: "lookup_features data' FEATURE_NAMES = Inr vs" "length vs = length FEATURE_NAMES"
      "\<forall>i < length FEATURE_NAMES. map_of data' (FEATURE_NAMES ! i) = Some (vs ! i)"
    by blast
  have exact: "\<exists>n. as_number (vs ! i) = Some n \<and> py_float (vs ! i) = Inr (num_val n)"
    if i: "i < 8" for i
  proof -
    from vs(3) i len have v: "map_of data' (FEATURE_NAMES ! i) = Some (vs ! i)" by simp
    from map_of_SomeD [OF v] have mem: "(FEATURE_NAMES ! i, vs ! i) \<in> set data'" .
    have "FEATURE_NAMES ! i \<in> set FEATURE_NAMES" using i len by simp
    then have "map_of FEATURE_RANGES (FEATURE_NAMES ! i) \<noteq> None"
      by (simp only: FEATURE_RANGES_dom)
    then obtain lo hi where r: "map_of FEATURE_RANGES (FEATURE_NAMES ! i) = Some (lo, hi)"
      by auto
    from chk mem r obtain n where n: "as_number (vs ! i) = Some n" "between lo n hi"
      unfolding check_items_ok_iff ranges_eq by fastforce
    from FEATURE_RANGES_bounds [OF r] obtain a b
      where ab: "lo = Fin a" "hi = Fin b" "0 \<le> a" "b \<le> 269" by blast
    have "py_float (vs ! i) = Inr (num_val n)"
      using n ab by (intro py_float_exact [of "vs ! i" n a b]) auto
    with n(1) show ?thesis by blast
  qed
  have all_exact: "\<forall>v \<in> set vs. \<exists>n. as_number v = Some n \<and> py_float v = Inr (num_val n)"
  proof
    fix v assume "v \<in> set vs"
    then obtain i where "i < length vs" "vs ! i = v" by (auto simp: in_set_conv_nth)
    with exact [of i] vs(2) len
    show "\<exists>n. as_number v = Some n \<and> py_float v = Inr (num_val n)" by auto
  qed
  have "map_of data' (FEATURE_NAMES ! i) = Some (vs ! i)
      \<and> (\<exists>n m. as_number (vs ! i) = Some n \<and> as_number (np_array_row vs ! i) = Some m
            \<and> num_val m = num_val n)"
    if i: "i < 8" for i
  proof -
    from vs(3) i len have v: "map_of data' (FEATURE_NAMES ! i) = Some (vs ! i)" by simp
    from i vs(2) len have "i < length vs" by simp
    from np_array_row_nth [OF all_exact this] v show ?thesis by simp
  qed
  with vs(1,2) len np_array_row_length [of vs]
  show "\<exists>vs. lookup_features data' (feature_names (init ex ld)) = Inr vs \<and> length vs = 8
      \<and> length (np_array_row vs) = 8
      \<and> (\<forall>i < 8. map_of data' (feature_names (init ex ld) ! i) = Some (vs ! i)
           \<and> (\<exists>n m. as_number (vs ! i) = Some n
                 \<and> as_number (np_array_row vs ! i) = Some m
                 \<and> num_val m = num_val n))"
    unfolding init_simps by auto
qed

theorem vector_in_schema_order_witness:
  "(\<exists>xs. float_features get_sample_data FEATURE_NAMES = Inr xs \<and> length xs = 8
      \<and> xs ! 4 = Fin 130)
   \<and> (\<exists>vs. lookup_features get_sample_data FEATURE_NAMES = Inr vs \<and> length vs = 8
      \<and> vs ! 4 = PNum (PFloat (Fin 130)))"
proof -
  have v1: "validate_input get_sample_data = Inr []" by (rule sample_valid_app)
  have v2: "fst (FetalHealthAgent_validate_input (init False (Inl KeyError)) get_sample_data)"
    by (simp add: sample_valid_agent)
  have m: "map_of get_sample_data (FEATURE_NAMES ! 4) = Some (PNum (PFloat (Fin 130)))"
    by (simp add: get_sample_data_def FEATURE_NAMES_def)
  from vector_in_schema_order [of get_sample_data False "Inl KeyError" get_sample_data] v1 v2
  obtain xs vs where
    xs: "float_features get_sample_data FEATURE_NAMES = Inr xs" "length xs = 8"
      "\<forall>i < 8. \<exists>v. map_of get_sample_data (FEATURE_NAMES ! i) = Some v
          \<and> py_float v = Inr (xs ! i)
          \<and> (\<forall>n. as_number v = Some n \<longrightarrow> xs ! i = num_val n)"
    and vs: "lookup_features get_sample_data FEATURE_NAMES = Inr vs" "length vs = 8"
      "\<forall>i < 8. map_of get_sample_data (FEATURE_NAMES ! i) = Some (vs ! i)
          \<and> (\<exists>n m. as_number (vs ! i) = Some n
                \<and> as_number (np_array_row vs ! i) = Some m
                \<and> num_val m = num_val n)"
    unfolding init_simps by blast
  have four: "(4::nat) < 8" by simp
  from xs(3) four have "\<exists>v. map_of get_sample_data (FEATURE_NAMES ! 4) = Some v
      \<and> py_float v = Inr (xs ! 4)" by blast
  with m have x4: "xs ! 4 = Fin 130" by auto
  from vs(3) four have "map_of get_sample_data (FEATURE_NAMES ! 4) = Some (vs ! 4)" by blast
  with m have v4: "vs ! 4 = PNum (PFloat (Fin 130))" by simp
  from xs(1,2) x4 vs(1,2) v4 show ?thesis by blast
qed

section \<open>Values at a bound\<close>

lemma bound_request_accepted:
  assumes present: "set FEATURE_NAMES \<subseteq> set (map fst data)"
    and ok: "\<forall>(f, v) \<in> set data. \<forall>lo hi. map_of FEATURE_RANGES f = Some (lo, hi) \<longrightarrow>
               (\<exists>n. as_number v = Some n \<and> (num_val n = lo \<or> num_val n = hi \<or> between lo n hi))"
  shows "validate_input data = Inr []
    \<and> ((\<forall>(k, v) \<in> set data. as_number v \<noteq> None) \<longrightarrow>
         FetalHealthAgent_validate_input (init ex ld) data =
           (True, [Lit ''Input validation successful'']))"
proof -
  have nomiss: "filter (\<lambda>f. f \<notin> set (map fst data)) FEATURE_NAMES = []"
    using present by (auto simp: filter_empty_conv)
  have within: "\<exists>n. as_number v = Some n \<and> between lo n hi \<and> py_float v = Inr (num_val n)"
    if mem: "(f, v) \<in> set data" and r: "map_of FEATURE_RANGES f = Some (lo, hi)" for f v lo hi
  proof -
    from ok mem r obtain n where n: "as_number v = Some n"
      "num_val n = lo \<or> num_val n = hi \<or> between lo n hi" by blast
    from FEATURE_RANGES_bounds [OF r] obtain a b
      where ab: "lo = Fin a" "hi = Fin b" "0 \<le> a" "a \<le> b" "b \<le> 269" by blast
    from n(2) ab have btw: "between lo n hi" by (auto simp: between_def)
    have "py_float v = Inr (num_val n)"
      using n(1) btw ab by (intro py_float_exact [of v n a b]) auto
    with n(1) btw show ?thesis by blast
  qed
  have "check_ranges data [] = Inr []"
    unfolding check_ranges_empty_iff using within by (fastforce simp: between_def)
  then have app: "validate_input data = Inr []"
    unfolding validate_input_def Let_def nomiss by simp
  have agent: "FetalHealthAgent_validate_input (init ex ld) data =
      (True, [Lit ''Input validation successful''])"
    if numeric: "\<forall>(k, v) \<in> set data. as_number v \<noteq> None"
  proof -
    have "fst (check_items data)"
      unfolding check_items_ok_iff ranges_eq using numeric within by fastforce
    from check_items_ok_message [OF this] show ?thesis
      unfolding FetalHealthAgent_validate_input_def Let_def init_simps nomiss by simp
  qed
  from app agent show ?thesis by blast
qed

text \<open>
  C3, amended. In the form app, when \<open>validate_input\<close> returns, its error list holds, for
  every recognized feature whose value converts with \<open>float\<close> to a number outside its bounds,
  the range error naming the feature, the converted value and both bounds. In the agent a
  numeric value outside its bounds always makes validation fail, and the result is the
  range error naming the feature and both bounds (not the value) when no feature is missing
  and every earlier item of the request passes its checks. A value equal to a bound is
  accepted: the comparison holds at either bound, and a request that has all eight
  features, each a number equal to its lower bound, equal to its upper bound or between
  them, passes the form app's validation, and the agent's when every other value of the
  request is a number too.
\<close>

theorem range_violation_reported:
  "(validate_input data = Inr errors \<longrightarrow> (f, v) \<in> set data \<longrightarrow>
      map_of FEATURE_RANGES f = Some (lo, hi) \<longrightarrow> py_float v = Inr x \<longrightarrow>
      \<not> (fl_le lo x \<and> fl_le x hi) \<longrightarrow>
      outside_range_message f x lo hi \<in> set errors)
   \<and> ((g, w) \<in> set data' \<longrightarrow> as_number w = Some n \<longrightarrow> map_of ranges g = Some (lo', hi') \<longrightarrow>
      \<not> between lo' n hi' \<longrightarrow> \<not> fst (FetalHealthAgent_validate_input self data'))
   \<and> (filter (\<lambda>k. k \<notin> set (map fst (pre @ (g, w) # post))) (feature_names self) = [] \<longrightarrow>
      check_items pre = (True, m0) \<longrightarrow> as_number w = Some n \<longrightarrow>
      map_of ranges g = Some (lo', hi') \<longrightarrow> \<not> between lo' n hi' \<longrightarrow>
      FetalHealthAgent_validate_input self (pre @ (g, w) # post) =
        (False, between_message g lo' hi'))
   \<and> (map_of FEATURE_RANGES h = Some (a, b) \<longrightarrow>
      fl_le a a \<and> fl_le a b \<and> fl_le b b \<and> between a (PFloat a) b \<and> between a (PFloat b) b)
   \<and> (set FEATURE_NAMES \<subseteq> set (map fst d) \<longrightarrow>
      (\<forall>(k, u) \<in> set d. \<forall>l r. map_of FEATURE_RANGES k = Some (l, r) \<longrightarrow>
         (\<exists>q. as_number u = Some q \<and> (num_val q = l \<or> num_val q = r \<or> between l q r))) \<longrightarrow>
      validate_input d = Inr []
      \<and> ((\<forall>(k, u) \<in> set d. as_number u \<noteq> None) \<longrightarrow>
           FetalHealthAgent_validate_input (init ex ld) d =
             (True, [Lit ''Input validation successful''])))"
proof (intro conjI impI)
  assume "validate_input data = Inr errors" "(f, v) \<in> set data"
    "map_of FEATURE_RANGES f = Some (lo, hi)" "py_float v = Inr x"
    "\<not> (fl_le lo x \<and> fl_le x hi)"
  then show "outside_range_message f x lo hi \<in> set errors"
    unfolding validate_input_def Let_def by (rule check_ranges_outside)
next
  assume "(g, w) \<in> set data'" "as_number w = Some n" "map_of ranges g = Some (lo', hi')"
    "\<not> between lo' n hi'"
  then have "\<not> fst (check_items data')"
    by (intro check_items_fails [of g w]) auto
  then show "\<not> fst (FetalHealthAgent_validate_input self data')"
    by (simp add: FetalHealthAgent_validate_input_def Let_def)
next
  assume "filter (\<lambda>k. k \<notin> set (map fst (pre @ (g, w) # post))) (feature_names self) = []"
    "check_items pre = (True, m0)" "as_number w = Some n" "map_of ranges g = Some (lo', hi')"
    "\<not> between lo' n hi'"
  then show "FetalHealthAgent_validate_input self (pre @ (g, w) # post) =
      (False, between_message g lo' hi')"
    by (simp add: FetalHealthAgent_validate_input_def Let_def check_items_first)
next
  assume "map_of FEATURE_RANGES h = Some (a, b)"
  from FEATURE_RANGES_bounds [OF this]
  show "fl_le a a" and "fl_le a b" and "fl_le b b" and "between a (PFloat a) b"
    and "between a (PFloat b) b"
    by (auto simp: between_def)
next
  assume "set FEATURE_NAMES \<subseteq> set (map fst d)"
    and "\<forall>(k, u) \<in> set d. \<forall>l r. map_of FEATURE_RANGES k = Some (l, r) \<longrightarrow>
         (\<exists>q. as_number u = Some q \<and> (num_val q = l \<or> num_val q = r \<or> between l q r))"
  from bound_request_accepted [OF this, of ex ld]
  show "validate_input d = Inr []" by blast
next
  assume "set FEATURE_NAMES \<subseteq> set (map fst d)"
    and "\<forall>(k, u) \<in> set d. \<forall>l r. map_of FEATURE_RANGES k = Some (l, r) \<longrightarrow>
         (\<exists>q. as_number u = Some q \<and> (num_val q = l \<or> num_val q = r \<or> between l q r))"
  from bound_request_accepted [OF this, of ex ld]
  have "(\<forall>(k, u) \<in> set d. as_number u \<noteq> None) \<longrightarrow>
      FetalHealthAgent_validate_input (init ex ld) d =
        (True, [Lit ''Input validation successful''])" by blast
  moreover assume "\<forall>(k, u) \<in> set d. as_number u \<noteq> None"
  ultimately show "FetalHealthAgent_validate_input (init ex ld) d =
      (True, [Lit ''Input validation successful''])" by blast
qed

theorem range_violation_reported_witness:
  "outside_range_message ''prolongued_decelerations'' (Fin 999) (Fin 0)
      (Fin (5764607523034235 / 2 ^ 60))
     \<in> set [outside_range_message ''prolongued_decelerations'' (Fin 999) (Fin 0)
            (Fin (5764607523034235 / 2 ^ 60))]
   \<and> \<not> fst (FetalHealthAgent_validate_input (init False (Inl KeyError)) invalid_range_data)
   \<and> FetalHealthAgent_validate_input (init False (Inl KeyError))
        ([] @ (''prolongued_decelerations'', PNum (PInt 999)) # tl get_sample_data) =
      (False, between_message ''prolongued_decelerations'' (Fin 0)
         (Fin (5764607523034235 / 2 ^ 60)))
   \<and> fl_le (Fin 0) (Fin 0) \<and> fl_le (Fin 0) (Fin (5764607523034235 / 2 ^ 60))
   \<and> between (Fin 0) (PFloat (Fin (5764607523034235 / 2 ^ 60)))
        (Fin (5764607523034235 / 2 ^ 60))
   \<and> map_of bound_median_data ''histogram_median'' = Some (PNum (PFloat (Fin 186)))
   \<and> map_of FEATURE_RANGES ''histogram_median'' = Some (Fin 77, Fin 186)
   \<and> validate_input bound_median_data = Inr []
   \<and> FetalHealthAgent_validate_input (init False (Inl KeyError)) bound_median_data =
       (True, [Lit ''Input validation successful''])"
proof -
  have r: "map_of FEATURE_RANGES ''prolongued_decelerations'' =
      Some (Fin 0, Fin (5764607523034235 / 2 ^ 60))"
    by (simp add: FEATURE_RANGES_def)
  have r': "map_of ranges ''prolongued_decelerations'' =
      Some (Fin 0, Fin (5764607523034235 / 2 ^ 60))"
    by (simp add: ranges_def)
  have mem: "(''prolongued_decelerations'', PNum (PInt 999)) \<in> set invalid_range_data"
    by (simp add: invalid_range_data_def get_sample_data_def)
  have nb: "\<not> between (Fin 0) (PInt 999) (Fin (5764607523034235 / 2 ^ 60))"
    by (simp add: between_def)
  have nf: "\<not> (fl_le (Fin 0) (Fin 999) \<and> fl_le (Fin 999) (Fin (5764607523034235 / 2 ^ 60)))"
    by simp
  have pf: "py_float (PNum (PInt 999)) = Inr (Fin 999)" by simp
  have nomiss: "filter (\<lambda>k. k \<notin> set (map fst
        ([] @ (''prolongued_decelerations'', PNum (PInt 999)) # tl get_sample_data)))
      (feature_names (init False (Inl KeyError))) = []"
    by (simp add: get_sample_data_def FEATURE_NAMES_def)
  have pre: "check_items [] = (True, [Lit ''Input validation successful''])" by simp
  have num: "as_number (PNum (PInt 999)) = Some (PInt 999)" by simp
  have bm: "map_of bound_median_data ''histogram_median'' = Some (PNum (PFloat (Fin 186)))"
    by (simp add: bound_median_data_def get_sample_data_def)
  have rm: "map_of FEATURE_RANGES ''histogram_median'' = Some (Fin 77, Fin 186)"
    by (simp add: FEATURE_RANGES_def)
  have present: "set FEATURE_NAMES \<subseteq> set (map fst bound_median_data)"
    by (simp add: bound_median_data_def get_sample_data_def FEATURE_NAMES_def)
  have ok: "\<forall>(k, u) \<in> set bound_median_data. \<forall>l r.
      map_of FEATURE_RANGES k = Some (l, r) \<longrightarrow>
      (\<exists>q. as_number u = Some q \<and> (num_val q = l \<or> num_val q = r \<or> between l q r))"
    by (simp add: bound_median_data_def get_sample_data_def FEATURE_RANGES_def between_def)
  have numeric: "\<forall>(k, u) \<in> set bound_median_data. as_number u \<noteq> None"
    by (simp add: bound_median_data_def get_sample_data_def)
  show ?thesis
    using range_violation_reported
      [where data = invalid_range_data and f = "''prolongued_decelerations''"
         and v = "PNum (PInt 999)" and lo = "Fin 0" and hi = "Fin (5764607523034235 / 2 ^ 60)"
         and x = "Fin 999"
         and errors = "[outside_range_message ''prolongued_decelerations'' (Fin 999) (Fin 0)
            (Fin (5764607523034235 / 2 ^ 60))]"
         and data' = invalid_range_data and g = "''prolongued_decelerations''"
         and w = "PNum (PInt 999)" and n = "PInt 999" and lo' = "Fin 0"
         and hi' = "Fin (5764607523034235 / 2 ^ 60)"
         and self = "init False (Inl KeyError)" and pre = "[]" and post = "tl get_sample_data"
         and ?m0.0 = "[Lit ''Input validation successful'']"
         and h = "''prolongued_decelerations''" and a = "Fin 0"
         and b = "Fin (5764607523034235 / 2 ^ 60)"
         and d = bound_median_data and ex = False and ld = "Inl KeyError"]
      invalid_range_data_app r r' mem nb nf pf nomiss pre num bm rm present ok numeric
    by (simp del: py_float.simps fl_le.simps)
qed

section \<open>The echoed request\<close>

lemma app_valid_vector:
  assumes valid: "validate_input data = Inr []"
  shows "\<exists>xs. float_features data FEATURE_NAMES = Inr xs"
proof -
  note nomiss = app_valid_none_missing(1) [OF valid]
  note chk = app_valid_none_missing(2) [OF valid]
  have "\<forall>f \<in> set FEATURE_NAMES. \<exists>v x. map_of data f = Some v \<and> py_float v = Inr x"
  proof
    fix f assume f: "f \<in> set FEATURE_NAMES"
    from present_lookup [OF nomiss f] obtain v
      where v: "map_of data f = Some v" "(f, v) \<in> set data" by blast
    from f have "map_of FEATURE_RANGES f \<noteq> None" by (simp only: FEATURE_RANGES_dom)
    then obtain lo hi where r: "map_of FEATURE_RANGES f = Some (lo, hi)" by auto
    from chk v(2) r obtain x where "py_float v = Inr x"
      unfolding check_ranges_empty_iff by blast
    with v(1) show "\<exists>v x. map_of data f = Some v \<and> py_float v = Inr x" by blast
  qed
  from float_features_ok [OF this] show ?thesis by blast
qed

lemma agent_valid_vector:
  assumes valid: "fst (FetalHealthAgent_validate_input (init ex ld) data)"
  shows "\<exists>vs. lookup_features data FEATURE_NAMES = Inr vs"
proof -
  have nomiss: "filter (\<lambda>f. f \<notin> set (map fst data)) FEATURE_NAMES = []"
  proof (rule ccontr)
    assume "filter (\<lambda>f. f \<notin> set (map fst data)) FEATURE_NAMES \<noteq> []"
    with valid show False
      unfolding FetalHealthAgent_validate_input_def Let_def init_simps by simp
  qed
  have "\<forall>f \<in> set FEATURE_NAMES. \<exists>v. map_of data f = Some v"
    using present_lookup [OF nomiss] by blast
  from lookup_features_ok [OF this] show ?thesis by blast
qed

lemma label_of_code:
  "1 \<le> c \<Longrightarrow> c \<le> 3 \<Longrightarrow>
     py_index [''NORMAL'', ''SUSPECT'', ''PATHOLOGICAL''] (c - 1) =
       Inr ([''NORMAL'', ''SUSPECT'', ''PATHOLOGICAL''] ! nat (c - 1))"
  by (simp add: py_index_def)

text \<open>
  C8. Round trip: for every valid request, the successful prediction result echoes the
  request as the caller gave it, with every key and value, extra keys included. A request
  that passes validation, with a model loaded whose \<open>predict\<close> answers a class code 1, 2 or
  3 and whose \<open>predict_proba\<close>, when it has one, answers (three probabilities at least in
  the form app), gets a result with \<open>success\<close> true, the label of the code, and the request
  itself under \<open>input_data\<close>; and every successful result of either pipeline carries the
  request under \<open>input_data\<close>.
\<close>

theorem echoed_input_is_request:
  "(validate_input data = Inr [] \<longrightarrow>
      (\<exists>xs. float_features data FEATURE_NAMES = Inr xs
         \<and> (predict m (map (\<lambda>x. PNum (PFloat x)) xs) = Inr code \<longrightarrow>
            map_of CLASS_LABELS (num_val code) = Some label \<longrightarrow>
            (predict_proba m = None
             \<or> (\<exists>proba probabilities. predict_proba m = Some proba
                  \<and> proba (map (\<lambda>x. PNum (PFloat x)) xs) = Inr probabilities
                  \<and> 3 \<le> length probabilities)) \<longrightarrow>
            (\<exists>r calls. make_prediction (Some m) now data = (Inr r, calls)
               \<and> map_of r ''success'' = Some (RBool True)
               \<and> map_of r ''prediction'' = Some (RStr label)
               \<and> map_of r ''input_data'' = Some (RInput data)))))
   \<and> (fst (FetalHealthAgent_validate_input (init True (Inr m')) data') \<longrightarrow>
      (\<exists>vs. lookup_features data' FEATURE_NAMES = Inr vs
         \<and> (predict m' (np_array_row vs) = Inr code' \<longrightarrow> py_int code' = Inr c \<longrightarrow>
            1 \<le> c \<longrightarrow> c \<le> 3 \<longrightarrow>
            (predict_proba m' = None
             \<or> (\<exists>proba probabilities. predict_proba m' = Some proba
                  \<and> proba (np_array_row vs) = Inr probabilities)) \<longrightarrow>
            (\<exists>r calls. FetalHealthAgent_make_prediction (init True (Inr m')) now data' =
                 (r, calls)
               \<and> map_of r ''success'' = Some (RBool True)
               \<and> map_of r ''prediction'' =
                   Some (RStr ([''NORMAL'', ''SUSPECT'', ''PATHOLOGICAL''] ! nat (c - 1)))
               \<and> map_of r ''input_data'' = Some (RInput data')))))
   \<and> (make_prediction mdl now data'' = (Inr r, calls) \<longrightarrow>
      map_of r ''success'' = Some (RBool True) \<longrightarrow> map_of r ''input_data'' = Some (RInput data''))
   \<and> (FetalHealthAgent_make_prediction self now data'' = (r', calls') \<longrightarrow>
      map_of r' ''success'' = Some (RBool True) \<longrightarrow> map_of r' ''input_data'' = Some (RInput data''))"
proof (intro conjI impI)
  assume valid: "validate_input data = Inr []"
  from app_valid_vector [OF valid] obtain xs
    where xs: "float_features data FEATURE_NAMES = Inr xs" by blast
  have "\<exists>r calls. make_prediction (Some m) now data = (Inr r, calls)
      \<and> map_of r ''success'' = Some (RBool True)
      \<and> map_of r ''prediction'' = Some (RStr label)
      \<and> map_of r ''input_data'' = Some (RInput data)"
    if p: "predict m (map (\<lambda>x. PNum (PFloat x)) xs) = Inr code"
      and l: "map_of CLASS_LABELS (num_val code) = Some label"
      and pp: "predict_proba m = None
        \<or> (\<exists>proba probabilities. predict_proba m = Some proba
             \<and> proba (map (\<lambda>x. PNum (PFloat x)) xs) = Inr probabilities
             \<and> 3 \<le> length probabilities)"
  proof -
    from pp obtain conf calls where
      "predict_block m now data = (Inr (success_result label conf now data), calls)"
      unfolding predict_block_def using xs p l by (auto simp: Let_def)
    then have "make_prediction (Some m) now data =
        (Inr (success_result label conf now data), Validate data # calls)"
      by (simp add: make_prediction_def valid)
    then show ?thesis by (auto simp: success_result_def)
  qed
  with xs show "\<exists>xs. float_features data FEATURE_NAMES = Inr xs
      \<and> (predict m (map (\<lambda>x. PNum (PFloat x)) xs) = Inr code \<longrightarrow>
         map_of CLASS_LABELS (num_val code) = Some label \<longrightarrow>
         (predict_proba m = None
          \<or> (\<exists>proba probabilities. predict_proba m = Some proba
               \<and> proba (map (\<lambda>x. PNum (PFloat x)) xs) = Inr probabilities
               \<and> 3 \<le> length probabilities)) \<longrightarrow>
         (\<exists>r calls. make_prediction (Some m) now data = (Inr r, calls)
            \<and> map_of r ''success'' = Some (RBool True)
            \<and> map_of r ''prediction'' = Some (RStr label)
            \<and> map_of r ''input_data'' = Some (RInput data)))"
    by blast
next
  assume valid: "fst (FetalHealthAgent_validate_input (init True (Inr m')) data')"
  from agent_valid_vector [OF valid] obtain vs
    where vs: "lookup_features data' FEATURE_NAMES = Inr vs" by blast
  have "\<exists>r calls. FetalHealthAgent_make_prediction (init True (Inr m')) now data' = (r, calls)
      \<and> map_of r ''success'' = Some (RBool True)
      \<and> map_of r ''prediction'' =
          Some (RStr ([''NORMAL'', ''SUSPECT'', ''PATHOLOGICAL''] ! nat (c - 1)))
      \<and> map_of r ''input_data'' = Some (RInput data')"
    if p: "predict m' (np_array_row vs) = Inr code'" and i: "py_int code' = Inr c"
      and c: "1 \<le> c" "c \<le> 3"
      and pp: "predict_proba m' = None
        \<or> (\<exists>proba probabilities. predict_proba m' = Some proba
             \<and> proba (np_array_row vs) = Inr probabilities)"
  proof -
    from pp obtain conf calls where
      "agent_predict_block (init True (Inr m')) m' now data' =
         (Inr (success_result ([''NORMAL'', ''SUSPECT'', ''PATHOLOGICAL''] ! nat (c - 1))
                 conf now data'), calls)"
      unfolding agent_predict_block_def using vs p i label_of_code [OF c]
      by (auto simp: Let_def)
    moreover obtain msg where
      "FetalHealthAgent_validate_input (init True (Inr m')) data' = (True, msg)"
      using valid by (cases "FetalHealthAgent_validate_input (init True (Inr m')) data'") auto
    ultimately have "FetalHealthAgent_make_prediction (init True (Inr m')) now data' =
        (success_result ([''NORMAL'', ''SUSPECT'', ''PATHOLOGICAL''] ! nat (c - 1))
           conf now data', Validate data' # calls)"
      by (simp add: FetalHealthAgent_make_prediction_def)
    then show ?thesis by (auto simp: success_result_def)
  qed
  with vs show "\<exists>vs. lookup_features data' FEATURE_NAMES = Inr vs
      \<and> (predict m' (np_array_row vs) = Inr code' \<longrightarrow> py_int code' = Inr c \<longrightarrow>
         1 \<le> c \<longrightarrow> c \<le> 3 \<longrightarrow>
         (predict_proba m' = None
          \<or> (\<exists>proba probabilities. predict_proba m' = Some proba
               \<and> proba (np_array_row vs) = Inr probabilities)) \<longrightarrow>
         (\<exists>r calls. FetalHealthAgent_make_prediction (init True (Inr m')) now data' =
              (r, calls)
            \<and> map_of r ''success'' = Some (RBool True)
            \<and> map_of r ''prediction'' =
                Some (RStr ([''NORMAL'', ''SUSPECT'', ''PATHOLOGICAL''] ! nat (c - 1)))
            \<and> map_of r ''input_data'' = Some (RInput data')))"
    by blast
next
  assume "make_prediction mdl now data'' = (Inr r, calls)"
    and "map_of r ''success'' = Some (RBool True)"
  then show "map_of r ''input_data'' = Some (RInput data'')"
    using make_prediction_cases [of mdl now data'' r calls]
    by (auto simp: failure_fields success_fields)
next
  assume "FetalHealthAgent_make_prediction self now data'' = (r', calls')"
    and "map_of r' ''success'' = Some (RBool True)"
  then show "map_of r' ''input_data'' = Some (RInput data'')"
    using agent_make_prediction_cases [of self now data'' r' calls']
    by (auto simp: failure_fields success_fields)
qed

theorem echoed_input_is_request_witness:
  "(\<exists>r calls. make_prediction (Some (constant_classifier (PInt 1))) ''t'' get_sample_data =
        (Inr r, calls)
      \<and> map_of r ''success'' = Some (RBool True)
      \<and> map_of r ''prediction'' = Some (RStr ''NORMAL'')
      \<and> map_of r ''input_data'' = Some (RInput get_sample_data))
   \<and> (\<exists>r calls. FetalHealthAgent_make_prediction
          (init True (Inr (constant_classifier (PInt 2)))) ''t'' get_sample_data = (r, calls)
      \<and> map_of r ''success'' = Some (RBool True)
      \<and> map_of r ''prediction'' = Some (RStr ''SUSPECT'')
      \<and> map_of r ''input_data'' = Some (RInput get_sample_data))"
proof -
  have v1: "validate_input get_sample_data = Inr []" by (rule sample_valid_app)
  have v2: "fst (FetalHealthAgent_validate_input
      (init True (Inr (constant_classifier (PInt 2)))) get_sample_data)"
    by (simp add: sample_valid_agent)
  have p1: "predict (constant_classifier (PInt 1)) X = Inr (PInt 1)" for X
    by (simp add: constant_classifier_def)
  have p2: "predict (constant_classifier (PInt 2)) X = Inr (PInt 2)" for X
    by (simp add: constant_classifier_def)
  have l: "map_of CLASS_LABELS (num_val (PInt 1)) = Some ''NORMAL''"
    by (simp add: CLASS_LABELS_def)
  have n1: "predict_proba (constant_classifier (PInt 1)) = None"
    by (simp add: constant_classifier_def)
  have n2: "predict_proba (constant_classifier (PInt 2)) = None"
    by (simp add: constant_classifier_def)
  have i: "py_int (PInt 2) = Inr 2" by simp
  have lab: "[''NORMAL'', ''SUSPECT'', ''PATHOLOGICAL''] ! nat (2 - 1) = ''SUSPECT''"
    by simp
  from echoed_input_is_request
    [where data = get_sample_data and m = "constant_classifier (PInt 1)" and code = "PInt 1"
       and label = "''NORMAL''" and now = "''t''"
       and m' = "constant_classifier (PInt 2)" and data' = get_sample_data
       and code' = "PInt 2" and c = 2]
    v1 v2 l n1 n2 i
  show ?thesis by (auto simp: p1 p2 lab)
qed

end
